theory Spec2Isabelle
  imports Main "HOL-Library.AList"
begin

section \<open>JSON documents, diagnostics and exceptions\<close>

text \<open>
  Schemas and instances are the values \<^verbatim>\<open>json.loads\<close> produces. A \<^verbatim>\<open>dict\<close> is an
  association list in insertion order (the order \<^verbatim>\<open>items()\<close> and \<^verbatim>\<open>values()\<close> iterate in);
  lookup takes the first entry of a key. JSON numbers are integers here: in every
  function below a non-integral number behaves as an integer does (truthy unless zero,
  neither a mapping nor a sequence). \<open>JNull\<close> is Python's \<^verbatim>\<open>None\<close>.
\<close>

datatype json =
    JNull
  | JBool bool
  | JInt int
  | JStr string
  | JArr "json list"
  | JObj "(string \<times> json) list"

text \<open>Python truthiness, as \<^verbatim>\<open>if scope:\<close> and \<^verbatim>\<open>if local_resolve:\<close> test it.\<close>

fun truthy :: "json \<Rightarrow> bool" where
  "truthy JNull = False"
| "truthy (JBool b) = b"
| "truthy (JInt i) = (i \<noteq> 0)"
| "truthy (JStr s) = (s \<noteq> [])"
| "truthy (JArr xs) = (xs \<noteq> [])"
| "truthy (JObj kvs) = (kvs \<noteq> [])"

text \<open>
  A diagnostic. Modelled from the spec: \<^verbatim>\<open>exceptions.ValidationError\<close> is not among the
  sources; the spec gives it a message, the offending instance, the violated keyword, the
  keyword's value, the schema consulted, an instance path, a schema path and child
  diagnostics, where keyword, value, instance and schema "may be supplied then or filled
  in later by the engine". A field not yet supplied is \<open>Unset\<close>; a field supplied as
  \<^verbatim>\<open>None\<close> is \<open>Given\<close>.
\<close>

datatype pelem = PKey string | PIdx int

datatype 'a slot = Unset | Given 'a

datatype verror = VError
  (message: string)
  (err_validator: "string option slot")
  (err_validator_value: "json slot")
  (err_instance: "json slot")
  (err_schema: "json slot")
  (path: "pelem list")
  (schema_path: "pelem list")
  (err_context: "verror list")

datatype pyexn =
    RefResolutionError string
  | RefResolutionErrorFrom pyexn
  | SchemaError verror
  | ValidationError verror
  | RecursionError
  | AttributeError
  | TypeError
  | IndexError
  | KeyError
  | ValueError
  | OtherError string

text \<open>
  A generator run to its end is the list of the diagnostics it yielded, and the exception
  that ended it when it did not end normally.
\<close>

type_synonym trace = "verror list \<times> pyexn option"

section \<open>String operations of the host language\<close>

definition lstrip :: "char \<Rightarrow> string \<Rightarrow> string" where
  "lstrip c s = dropWhile (\<lambda>x. x = c) s"

definition rstrip :: "char \<Rightarrow> string \<Rightarrow> string" where
  "rstrip c s = rev (dropWhile (\<lambda>x. x = c) (rev s))"

text \<open>\<^verbatim>\<open>s.split(sep)\<close> for a one-character separator: never empty, one more part than
  separators.\<close>

fun split_on :: "char \<Rightarrow> string \<Rightarrow> string list" where
  "split_on c [] = [[]]"
| "split_on c (x # xs) =
     (if x = c then [] # split_on c xs
      else (case split_on c xs of
              [] \<Rightarrow> [[x]]
            | w # ws \<Rightarrow> (x # w) # ws))"

text \<open>\<^verbatim>\<open>s.replace(old, new)\<close> for a two-character \<open>old\<close>: occurrences are replaced from
  the left and do not overlap.\<close>

fun replace2 :: "char \<Rightarrow> char \<Rightarrow> string \<Rightarrow> string \<Rightarrow> string" where
  "replace2 a b new (x # y # rest) =
     (if x = a \<and> y = b then new @ replace2 a b new rest
      else x # replace2 a b new (y # rest))"
| "replace2 a b new xs = xs"

section \<open>The host library, as parameters\<close>

text \<open>
  Functions of the Python standard library and of modules that are not among the sources
  are parameters of the model: \<^verbatim>\<open>urllib.parse.urljoin\<close> behind its \<^verbatim>\<open>lru_cache\<close> (it is handed
  whatever the schema holds, and raises on some inputs),
  \<^verbatim>\<open>urldefrag\<close>, \<^verbatim>\<open>unquote\<close>, \<^verbatim>\<open>urlsplit(uri).scheme\<close>, \<^verbatim>\<open>int(part)\<close> (\<open>None\<close> when it
  raises \<^verbatim>\<open>ValueError\<close>), \<^verbatim>\<open>repr\<close> as the f-strings apply it, the default remote fetch
  (\<^verbatim>\<open>requests.get(uri).json()\<close> or \<^verbatim>\<open>urlopen\<close> with \<^verbatim>\<open>json.loads\<close>), the key normalisation
  of \<^verbatim>\<open>_utils.URIDict\<close>, and the selection heuristic of \<^verbatim>\<open>exceptions.best_match\<close> on a
  sequence that is not empty.
\<close>

record pyenv =
  urljoin :: "json \<Rightarrow> json \<Rightarrow> pyexn + json"
  urldefrag :: "string \<Rightarrow> string \<times> string"
  unquote :: "string \<Rightarrow> string"
  urlsplit_scheme :: "string \<Rightarrow> string"
  py_int :: "string \<Rightarrow> int option"
  py_repr :: "json \<Rightarrow> string"
  urlopen_json :: "string \<Rightarrow> pyexn + json"
  uri_normalize :: "json \<Rightarrow> pyexn + string"
  most_relevant :: "verror list \<Rightarrow> verror"

section \<open>The reference resolver\<close>

text \<open>
  \<^verbatim>\<open>RefResolver\<close>: the referrer, the flag \<^verbatim>\<open>cache_remote\<close>, the fetch handlers by scheme,
  the stack of scopes (innermost last), the store, and the contents of the
  \<^verbatim>\<open>lru_cache(1024)\<close> around \<^verbatim>\<open>resolve_from_url\<close> (most recently used first). The store is a
  \<^verbatim>\<open>URIDict\<close>: its keys are kept normalised. The cache around \<^verbatim>\<open>urljoin\<close> only memoises a
  function of its arguments and is not part of the state.
\<close>

record resolver =
  referrer :: json
  cache_remote :: bool
  handlers :: "(string \<times> (string \<Rightarrow> pyexn + json)) list"
  scopes_stack :: "json list"
  store :: "(string \<times> json) list"
  remote_memo :: "(string \<times> json) list"

definition depth :: "resolver \<Rightarrow> nat" where
  "depth r = length (scopes_stack r)"

text \<open>\<^verbatim>\<open>resolution_scope\<close> is \<^verbatim>\<open>self._scopes_stack[-1]\<close>: \<^verbatim>\<open>IndexError\<close> on an empty stack.\<close>

definition resolution_scope :: "resolver \<Rightarrow> pyexn + json" where
  "resolution_scope r =
     (if scopes_stack r = [] then Inl IndexError else Inr (last (scopes_stack r)))"

text \<open>
  \<^verbatim>\<open>push_scope(scope)\<close> appends the join of the current scope and \<open>scope\<close>; nothing is
  appended when reading the current scope or the join raises.
\<close>

definition push_scope :: "pyenv \<Rightarrow> resolver \<Rightarrow> json \<Rightarrow> pyexn + resolver" where
  "push_scope env r scope =
     (case resolution_scope r of
        Inl x \<Rightarrow> Inl x
      | Inr cur \<Rightarrow>
          (case urljoin env cur scope of
             Inl x \<Rightarrow> Inl x
           | Inr joined \<Rightarrow> Inr (r\<lparr>scopes_stack := scopes_stack r @ [joined]\<rparr>)))"

definition pop_scope :: "resolver \<Rightarrow> pyexn + resolver" where
  "pop_scope r =
     (if scopes_stack r = []
      then Inl (RefResolutionError
        ''Failed to pop the scope from an empty stack. `pop_scope()` should only be called once for every `push_scope()`'')
      else Inr (r\<lparr>scopes_stack := butlast (scopes_stack r)\<rparr>))"

text \<open>\<^verbatim>\<open>key in schema\<close> and \<^verbatim>\<open>schema[key]\<close> on a \<^verbatim>\<open>dict\<close>.\<close>

definition has_key :: "(string \<times> json) list \<Rightarrow> string \<Rightarrow> bool" where
  "has_key kvs key = (map_of kvs key \<noteq> None)"

text \<open>
  \<^verbatim>\<open>_finditem(schema, key)\<close>: the dicts holding \<open>key\<close>, the schema itself first, then those
  found in the values that are dicts, in order. Values that are lists are not entered.
\<close>

fun finditem :: "json \<Rightarrow> string \<Rightarrow> json list"
  and finditem_values :: "(string \<times> json) list \<Rightarrow> string \<Rightarrow> json list" where
  "finditem (JObj kvs) key =
     (if has_key kvs key then [JObj kvs] else []) @ finditem_values kvs key"
| "finditem JNull key = []"
| "finditem (JBool b) key = []"
| "finditem (JInt i) key = []"
| "finditem (JStr s) key = []"
| "finditem (JArr xs) key = []"
| "finditem_values [] key = []"
| "finditem_values (kv # rest) key =
     (case snd kv of
        JObj sub \<Rightarrow> finditem (JObj sub) key
      | _ \<Rightarrow> []) @ finditem_values rest key"

text \<open>
  \<^verbatim>\<open>document[part]\<close>, where \<open>part\<close> is a string or, after coercion, an integer. A negative
  index counts from the end, as Python's does; a string indexed by an integer gives the
  one-character string.
\<close>

definition seq_index :: "'a list \<Rightarrow> int \<Rightarrow> 'a option" where
  "seq_index xs i =
     (if 0 \<le> i \<and> i < int (length xs) then Some (xs ! nat i)
      else if i < 0 \<and> - int (length xs) \<le> i then Some (xs ! nat (int (length xs) + i))
      else None)"

fun getitem :: "json \<Rightarrow> string + int \<Rightarrow> pyexn + json" where
  "getitem (JObj kvs) (Inl key) =
     (case map_of kvs key of None \<Rightarrow> Inl KeyError | Some v \<Rightarrow> Inr v)"
| "getitem (JObj kvs) (Inr i) = Inl KeyError"
| "getitem (JArr xs) (Inr i) =
     (case seq_index xs i of None \<Rightarrow> Inl IndexError | Some v \<Rightarrow> Inr v)"
| "getitem (JArr xs) (Inl key) = Inl TypeError"
| "getitem (JStr s) (Inr i) =
     (case seq_index s i of None \<Rightarrow> Inl IndexError | Some c \<Rightarrow> Inr (JStr [c]))"
| "getitem (JStr s) (Inl key) = Inl TypeError"
| "getitem JNull part = Inl TypeError"
| "getitem (JBool b) part = Inl TypeError"
| "getitem (JInt i) part = Inl TypeError"

text \<open>\<^verbatim>\<open>isinstance(document, Sequence)\<close>: lists, and strings too.\<close>

fun is_sequence :: "json \<Rightarrow> bool" where
  "is_sequence (JArr xs) = True"
| "is_sequence (JStr s) = True"
| "is_sequence d = False"

text \<open>\<^verbatim>\<open>part.replace("~1", "/").replace("~0", "~")\<close>.\<close>

definition unescape :: "string \<Rightarrow> string" where
  "unescape part = replace2 CHR ''~'' CHR ''0'' ''~'' (replace2 CHR ''~'' CHR ''1'' ''/'' part)"

definition coerce :: "pyenv \<Rightarrow> json \<Rightarrow> string \<Rightarrow> string + int" where
  "coerce env document part =
     (if is_sequence document
      then (case py_int env part of None \<Rightarrow> Inl part | Some i \<Rightarrow> Inr i)
      else Inl part)"

text \<open>The loop over the parts of the pointer; \<open>fragment\<close> is what the error names.\<close>

fun walk :: "pyenv \<Rightarrow> string \<Rightarrow> json \<Rightarrow> string list \<Rightarrow> pyexn + json" where
  "walk env fragment document [] = Inr document"
| "walk env fragment document (part # parts) =
     (case getitem document (coerce env document (unescape part)) of
        Inl x \<Rightarrow>
          Inl (RefResolutionError
            (''Unresolvable JSON pointer: '' @ py_repr env (JStr fragment)))
      | Inr d \<Rightarrow> walk env fragment d parts)"

text \<open>The first dict found by \<^verbatim>\<open>_finditem\<close> whose \<open>keyword\<close> entry equals the fragment,
  for \<^verbatim>\<open>$anchor\<close> and then for \<^verbatim>\<open>$dynamicAnchor\<close>.\<close>

definition anchored :: "string \<Rightarrow> string \<Rightarrow> json \<Rightarrow> bool" where
  "anchored keyword fragment subschema =
     (case subschema of
        JObj kvs \<Rightarrow> map_of kvs keyword = Some (JStr fragment)
      | _ \<Rightarrow> False)"

definition find_anchor :: "json \<Rightarrow> string \<Rightarrow> json option" where
  "find_anchor document fragment =
     (case List.find (anchored ''$anchor'' fragment) (finditem document ''$anchor'') of
        Some s \<Rightarrow> Some s
      | None \<Rightarrow>
          List.find (anchored ''$dynamicAnchor'' fragment)
            (finditem document ''$dynamicAnchor''))"

definition resolve_fragment :: "pyenv \<Rightarrow> json \<Rightarrow> string \<Rightarrow> pyexn + json" where
  "resolve_fragment env document fragment0 =
     (let fragment = lstrip CHR ''/'' fragment0 in
      case (if fragment \<noteq> [] then find_anchor document fragment else None) of
        Some subschema \<Rightarrow> Inr subschema
      | None \<Rightarrow>
          walk env fragment document
            (if fragment \<noteq> [] then split_on CHR ''/'' (unquote env fragment) else []))"

text \<open>\<^verbatim>\<open>x.rstrip("/")\<close> on what \<^verbatim>\<open>urljoin\<close> returned: only a string has the method.\<close>

definition rstrip_slash :: "json \<Rightarrow> pyexn + string" where
  "rstrip_slash j = (case j of JStr s \<Rightarrow> Inr (rstrip CHR ''/'' s) | _ \<Rightarrow> Inl AttributeError)"

text \<open>
  The loop of \<^verbatim>\<open>resolve_local\<close> over the dicts that hold \<^verbatim>\<open>$id\<close>; \<open>None\<close> is the
  \<^verbatim>\<open>None\<close> the method returns when the loop ends without a match.
\<close>

fun resolve_local_loop ::
  "pyenv \<Rightarrow> resolver \<Rightarrow> string \<Rightarrow> string \<Rightarrow> json list \<Rightarrow> pyexn + json option" where
  "resolve_local_loop env r uri fragment [] = Inr None"
| "resolve_local_loop env r uri fragment (subschema # rest) =
     (case resolution_scope r of
        Inl x \<Rightarrow> Inl x
      | Inr scope \<Rightarrow>
          (case getitem subschema (Inl ''$id'') of
             Inl x \<Rightarrow> Inl x
           | Inr ident \<Rightarrow>
               (case urljoin env scope ident of
                  Inl x \<Rightarrow> Inl x
                | Inr target \<Rightarrow>
                    (case rstrip_slash target of
                       Inl x \<Rightarrow> Inl x
                     | Inr target_uri \<Rightarrow>
                         if target_uri = rstrip CHR ''/'' uri
                         then (if fragment \<noteq> []
                               then (case resolve_fragment env subschema fragment of
                                       Inl x \<Rightarrow> Inl x
                                     | Inr d \<Rightarrow> Inr (Some d))
                               else Inr (Some subschema))
                         else resolve_local_loop env r uri fragment rest))))"

definition resolve_local :: "pyenv \<Rightarrow> resolver \<Rightarrow> string \<Rightarrow> json \<Rightarrow> pyexn + json option" where
  "resolve_local env r url schema =
     (case urldefrag env url of
        (uri, fragment) \<Rightarrow> resolve_local_loop env r uri fragment (finditem schema ''$id''))"

text \<open>
  \<^verbatim>\<open>resolve_remote(uri)\<close>: the handler of the URI's scheme when there is one, the default
  fetch otherwise; the document is put into the store when \<^verbatim>\<open>cache_remote\<close> is set (a new
  entry in front shadows an older one of the same key).
\<close>

definition resolve_remote :: "pyenv \<Rightarrow> resolver \<Rightarrow> string \<Rightarrow> (pyexn + json) \<times> resolver" where
  "resolve_remote env r uri =
     (case (case map_of (handlers r) (urlsplit_scheme env uri) of
              Some handler \<Rightarrow> handler uri
            | None \<Rightarrow> urlopen_json env uri) of
        Inl x \<Rightarrow> (Inl x, r)
      | Inr result \<Rightarrow>
          if cache_remote r
          then (case uri_normalize env (JStr uri) of
                  Inl x \<Rightarrow> (Inl x, r)
                | Inr key \<Rightarrow> (Inr result, r\<lparr>store := (key, result) # store r\<rparr>))
          else (Inr result, r))"

text \<open>
  \<^verbatim>\<open>resolve_from_url(url)\<close>: the store first; on \<^verbatim>\<open>KeyError\<close> the remote fetch, any
  exception of which is wrapped into a \<^verbatim>\<open>RefResolutionError\<close>.
\<close>

definition resolve_from_url :: "pyenv \<Rightarrow> resolver \<Rightarrow> string \<Rightarrow> (pyexn + json) \<times> resolver" where
  "resolve_from_url env r url0 =
     (case urldefrag env url0 of
        (url, fragment) \<Rightarrow>
          (case uri_normalize env (JStr url) of
             Inl x \<Rightarrow> (Inl x, r)
           | Inr key \<Rightarrow>
               (case map_of (store r) key of
                  Some document \<Rightarrow> (resolve_fragment env document fragment, r)
                | None \<Rightarrow>
                    (case resolve_remote env r url of
                       (Inl x, r') \<Rightarrow> (Inl (RefResolutionErrorFrom x), r')
                     | (Inr document, r') \<Rightarrow> (resolve_fragment env document fragment, r')))))"

text \<open>
  \<^verbatim>\<open>self._remote_cache\<close>, the \<^verbatim>\<open>lru_cache(1024)\<close> around \<^verbatim>\<open>resolve_from_url\<close>: a hit returns
  the remembered result and becomes the most recent entry; a miss calls the method and
  remembers a result, not an exception, dropping the least recent entry beyond 1024.
\<close>

definition remote_cache :: "pyenv \<Rightarrow> resolver \<Rightarrow> string \<Rightarrow> (pyexn + json) \<times> resolver" where
  "remote_cache env r url =
     (case map_of (remote_memo r) url of
        Some d \<Rightarrow>
          (Inr d, r\<lparr>remote_memo := (url, d) # filter (\<lambda>kv. fst kv \<noteq> url) (remote_memo r)\<rparr>)
      | None \<Rightarrow>
          (case resolve_from_url env r url of
             (Inl x, r') \<Rightarrow> (Inl x, r')
           | (Inr d, r') \<Rightarrow>
               (Inr d, r'\<lparr>remote_memo := take 1024 ((url, d) # remote_memo r')\<rparr>)))"

text \<open>
  \<^verbatim>\<open>resolve(ref)\<close>: the pair of the joined URL and the document. The local result is taken
  when it is truthy (\<^verbatim>\<open>if local_resolve:\<close>).
\<close>

definition resolve ::
  "pyenv \<Rightarrow> resolver \<Rightarrow> json \<Rightarrow> (pyexn + string \<times> json) \<times> resolver" where
  "resolve env r ref =
     (case resolution_scope r of
        Inl x \<Rightarrow> (Inl x, r)
      | Inr scope \<Rightarrow>
          (case urljoin env scope ref of
             Inl x \<Rightarrow> (Inl x, r)
           | Inr joined \<Rightarrow>
               (case rstrip_slash joined of
                  Inl x \<Rightarrow> (Inl x, r)
                | Inr url \<Rightarrow>
                    (case resolve_local env r url (referrer r) of
                       Inl x \<Rightarrow> (Inl x, r)
                     | Inr local_resolve \<Rightarrow>
                         (case (case local_resolve of
                                  None \<Rightarrow> None
                                | Some d \<Rightarrow> if truthy d then Some d else None) of
                            Some d \<Rightarrow> (Inr (url, d), r)
                          | None \<Rightarrow>
                              (case remote_cache env r url of
                                 (Inl x, r') \<Rightarrow> (Inl x, r')
                               | (Inr d, r') \<Rightarrow> (Inr (url, d), r')))))))"

text \<open>
  The context manager \<^verbatim>\<open>resolving(ref)\<close> around a block \<open>body\<close>: resolve, push the URL,
  run the block on the resolved document, and pop in the \<^verbatim>\<open>finally\<close> clause. An exception
  of the pop replaces the block's.
\<close>

definition resolving ::
  "pyenv \<Rightarrow> json \<Rightarrow> (json \<Rightarrow> resolver \<Rightarrow> trace \<times> resolver) \<Rightarrow> resolver \<Rightarrow> trace \<times> resolver" where
  "resolving env ref body r =
     (case resolve env r ref of
        (Inl x, r1) \<Rightarrow> (([], Some x), r1)
      | (Inr (url, resolved), r1) \<Rightarrow>
          (case push_scope env r1 (JStr url) of
             Inl x \<Rightarrow> (([], Some x), r1)
           | Inr r2 \<Rightarrow>
               (case body resolved r2 of
                  ((errs, ex), r3) \<Rightarrow>
                    (case pop_scope r3 of
                       Inl x \<Rightarrow> ((errs, Some x), r3)
                     | Inr r4 \<Rightarrow> ((errs, ex), r4)))))"

section \<open>Validator classes\<close>

text \<open>
  A keyword callable \<^verbatim>\<open>validator(self, v, instance, schema)\<close> yields diagnostics. Through
  \<^verbatim>\<open>self\<close> it re-enters the engine (\<^verbatim>\<open>self.descend\<close>, \<^verbatim>\<open>self.iter_errors\<close>) and reaches
  the resolver, so in the model it takes the engine it may re-enter and the resolver's
  state, and returns its trace with the state it leaves. \<open>None\<close> from a callable is the
  empty trace (\<^verbatim>\<open>or ()\<close>).
\<close>

type_synonym engine = "json \<Rightarrow> json \<Rightarrow> resolver \<Rightarrow> trace \<times> resolver"

type_synonym callable = "engine \<Rightarrow> json \<Rightarrow> json \<Rightarrow> json \<Rightarrow> resolver \<Rightarrow> trace \<times> resolver"

text \<open>\<^verbatim>\<open>TypeChecker.is_type(instance, type)\<close>; \<open>None\<close> is \<^verbatim>\<open>UndefinedTypeCheck\<close>.\<close>

type_synonym type_checker = "json \<Rightarrow> string \<Rightarrow> bool option"

text \<open>
  The class \<^verbatim>\<open>create\<close> builds: its class attributes and the two functions its methods
  close over (\<^verbatim>\<open>id_of\<close>, which is also \<^verbatim>\<open>ID_OF\<close>, and \<^verbatim>\<open>applicable_validators\<close>).
\<close>

record validator_cls =
  VALIDATORS :: "(string \<times> callable) list"
  META_SCHEMA :: json
  VOCABULARY_SCHEMAS :: "json list"
  TYPE_CHECKER :: type_checker
  ID_OF :: "json \<Rightarrow> pyexn + json"
  applicable_validators :: "json \<Rightarrow> pyexn + (string \<times> json) list"

text \<open>
  An instance of a validator class: \<^verbatim>\<open>self.schema\<close> and \<^verbatim>\<open>self.format_checker\<close>, with its
  class. \<^verbatim>\<open>self.resolver\<close> is the resolver state the methods take and return.
\<close>

record validator =
  cls :: validator_cls
  schema :: json
  format_checker :: "(json \<Rightarrow> string \<Rightarrow> bool) option"

text \<open>The module's registries, filled by \<^verbatim>\<open>validates\<close>, \<^verbatim>\<open>_LATEST_VERSION\<close>, and the
  type checker \<^verbatim>\<open>create\<close> takes by default.\<close>

record registry =
  validators :: "(string \<times> validator_cls) list"
  meta_schemas :: "(string \<times> validator_cls) list"
  VOCABULARIES :: "(string \<times> json) list"
  LATEST_VERSION :: validator_cls
  draft7_type_checker :: type_checker

text \<open>\<^verbatim>\<open>_id_of\<close>: a schema that is not a boolean is asked for \<^verbatim>\<open>.get("$id", "")\<close>.\<close>

definition id_of_default :: "json \<Rightarrow> pyexn + json" where
  "id_of_default sch =
     (case sch of
        JBool b \<Rightarrow> Inr (JStr [])
      | JObj kvs \<Rightarrow> (case map_of kvs ''$id'' of None \<Rightarrow> Inr (JStr []) | Some v \<Rightarrow> Inr v)
      | _ \<Rightarrow> Inl AttributeError)"

text \<open>The default \<^verbatim>\<open>applicable_validators\<close>, \<^verbatim>\<open>lambda schema: schema.items()\<close>.\<close>

definition items_of :: "json \<Rightarrow> pyexn + (string \<times> json) list" where
  "items_of sch = (case sch of JObj kvs \<Rightarrow> Inr kvs | _ \<Rightarrow> Inl AttributeError)"

text \<open>\<^verbatim>\<open>d[k] = v\<close> for a URI-keyed registry, and \<^verbatim>\<open>dict.update\<close>.\<close>

definition uri_set ::
  "pyenv \<Rightarrow> (string \<times> 'v) list \<Rightarrow> json \<Rightarrow> 'v \<Rightarrow> pyexn + (string \<times> 'v) list" where
  "uri_set env d uri v =
     (case uri_normalize env uri of Inl x \<Rightarrow> Inl x | Inr key \<Rightarrow> Inr (AList.update key v d))"

definition dict_update :: "(string \<times> 'v) list \<Rightarrow> (string \<times> 'v) list \<Rightarrow> (string \<times> 'v) list" where
  "dict_update d new = foldl (\<lambda>acc kv. AList.update (fst kv) (snd kv) acc) d new"

text \<open>The loop of \<^verbatim>\<open>validates\<close> over the vocabulary schemas.\<close>

fun register_vocabularies ::
  "pyenv \<Rightarrow> validator_cls \<Rightarrow> json list \<Rightarrow> (string \<times> json) list \<Rightarrow> pyexn + (string \<times> json) list" where
  "register_vocabularies env c [] voc = Inr voc"
| "register_vocabularies env c (vocabulary # rest) voc =
     (case ID_OF c vocabulary of
        Inl x \<Rightarrow> Inl x
      | Inr vocabulary_id \<Rightarrow>
          (case uri_set env voc vocabulary_id vocabulary of
             Inl x \<Rightarrow> Inl x
           | Inr voc' \<Rightarrow> register_vocabularies env c rest voc'))"

text \<open>\<^verbatim>\<open>validates(version)(cls)\<close>. When a step raises, the model returns the exception
  alone: what the steps before it wrote to the registries is not kept.\<close>

definition validates :: "pyenv \<Rightarrow> string \<Rightarrow> validator_cls \<Rightarrow> registry \<Rightarrow> pyexn + registry" where
  "validates env version c reg =
     (case ID_OF c (META_SCHEMA c) of
        Inl x \<Rightarrow> Inl x
      | Inr meta_schema_id \<Rightarrow>
          (case uri_set env (meta_schemas reg) meta_schema_id c of
             Inl x \<Rightarrow> Inl x
           | Inr ms \<Rightarrow>
               (case register_vocabularies env c (VOCABULARY_SCHEMAS c) (VOCABULARIES reg) of
                  Inl x \<Rightarrow> Inl x
                | Inr voc \<Rightarrow>
                    Inr (reg\<lparr>validators := AList.update version c (validators reg),
                             meta_schemas := ms, VOCABULARIES := voc\<rparr>))))"

text \<open>
  \<^verbatim>\<open>create\<close>. An argument the caller leaves out is \<open>None\<close> and takes the default of the
  signature: no vocabulary schemas, no version, \<^verbatim>\<open>_types.draft7_type_checker\<close>,
  \<^verbatim>\<open>_id_of\<close>, and \<^verbatim>\<open>lambda schema: schema.items()\<close>. The meta-schema and the table are
  mappings, which \<^verbatim>\<open>dict(...)\<close> copies as they are. The class's \<^verbatim>\<open>__name__\<close> is not
  modelled.
\<close>

definition create ::
  "pyenv \<Rightarrow> json \<Rightarrow> json list option \<Rightarrow> (string \<times> callable) list \<Rightarrow> string option \<Rightarrow>
   type_checker option \<Rightarrow> (json \<Rightarrow> pyexn + json) option \<Rightarrow>
   (json \<Rightarrow> pyexn + (string \<times> json) list) option \<Rightarrow> registry \<Rightarrow>
   pyexn + validator_cls \<times> registry" where
  "create env meta_schema vocabulary_schemas validators_arg version type_checker_arg id_of
     applicable reg =
     (let Validator =
        \<lparr> VALIDATORS = validators_arg,
          META_SCHEMA = meta_schema,
          VOCABULARY_SCHEMAS = (case vocabulary_schemas of None \<Rightarrow> [] | Some vs \<Rightarrow> vs),
          TYPE_CHECKER =
            (case type_checker_arg of None \<Rightarrow> draft7_type_checker reg | Some tc \<Rightarrow> tc),
          ID_OF = (case id_of of None \<Rightarrow> id_of_default | Some f \<Rightarrow> f),
          applicable_validators = (case applicable of None \<Rightarrow> items_of | Some f \<Rightarrow> f) \<rparr>
      in case version of
           None \<Rightarrow> Inr (Validator, reg)
         | Some ver \<Rightarrow>
             (case validates env ver Validator reg of
                Inl x \<Rightarrow> Inl x
              | Inr reg' \<Rightarrow> Inr (Validator, reg')))"

text \<open>
  \<^verbatim>\<open>extend(validator, validators, version, type_checker)\<close>: the parent's table updated with
  the new callables, and \<^verbatim>\<open>create\<close> called with \<^verbatim>\<open>meta_schema\<close>, \<^verbatim>\<open>validators\<close>,
  \<^verbatim>\<open>version\<close>, \<^verbatim>\<open>type_checker\<close> and \<^verbatim>\<open>id_of\<close> only.
\<close>

definition extend ::
  "pyenv \<Rightarrow> validator_cls \<Rightarrow> (string \<times> callable) list \<Rightarrow> string option \<Rightarrow>
   type_checker option \<Rightarrow> registry \<Rightarrow> pyexn + validator_cls \<times> registry" where
  "extend env validator validators_arg version type_checker_arg reg =
     (let all_validators = dict_update (VALIDATORS validator) validators_arg;
          type_checker' =
            (case type_checker_arg of None \<Rightarrow> TYPE_CHECKER validator | Some tc \<Rightarrow> tc)
      in create env (META_SCHEMA validator) None all_validators version
           (Some type_checker') (Some (ID_OF validator)) None reg)"

section \<open>The validation engine\<close>

text \<open>The diagnostic of the schema \<^verbatim>\<open>False\<close>; its keyword and keyword value are given as
  \<^verbatim>\<open>None\<close>.\<close>

definition false_schema_error :: "pyenv \<Rightarrow> json \<Rightarrow> verror" where
  "false_schema_error env inst =
     VError (''False schema does not allow '' @ py_repr env inst)
       (Given None) (Given JNull) (Given inst) (Given (JBool False)) [] [] []"

text \<open>
  Modelled from the spec: \<^verbatim>\<open>error._set\<close> is not among the sources; the spec has each
  diagnostic "stamped with the violating keyword, its value, the instance, and the schema",
  where "fields the callable itself may already have set are not overwritten".
\<close>

definition fill :: "'a slot \<Rightarrow> 'a \<Rightarrow> 'a slot" where
  "fill s v = (case s of Unset \<Rightarrow> Given v | Given x \<Rightarrow> Given x)"

definition error_set :: "string \<Rightarrow> json \<Rightarrow> json \<Rightarrow> json \<Rightarrow> verror \<Rightarrow> verror" where
  "error_set k v inst sch e =
     VError (message e)
       (fill (err_validator e) (Some k))
       (fill (err_validator_value e) v)
       (fill (err_instance e) inst)
       (fill (err_schema e) sch)
       (path e) (schema_path e) (err_context e)"

definition appendleft_schema_path :: "pelem \<Rightarrow> verror \<Rightarrow> verror" where
  "appendleft_schema_path p e =
     VError (message e) (err_validator e) (err_validator_value e) (err_instance e)
       (err_schema e) (path e) (p # schema_path e) (err_context e)"

definition appendleft_path :: "pelem \<Rightarrow> verror \<Rightarrow> verror" where
  "appendleft_path p e =
     VError (message e) (err_validator e) (err_validator_value e) (err_instance e)
       (err_schema e) (p # path e) (schema_path e) (err_context e)"

text \<open>What the inner loop of \<^verbatim>\<open>iter_errors\<close> does to an error of keyword \<open>k\<close> before
  yielding it.\<close>

definition stamp :: "string \<Rightarrow> json \<Rightarrow> json \<Rightarrow> json \<Rightarrow> verror \<Rightarrow> verror" where
  "stamp k v inst sch e =
     (let e' = error_set k v inst sch e
      in if k \<noteq> ''if'' \<and> k \<noteq> ''$ref'' then appendleft_schema_path (PKey k) e' else e')"

text \<open>
  The loop over the applicable pairs: a keyword without a callable is skipped; the errors
  of a callable are stamped and yielded; an exception of a callable ends the generator.
\<close>

fun run_validators ::
  "engine \<Rightarrow> (string \<times> callable) list \<Rightarrow> json \<Rightarrow> json \<Rightarrow> (string \<times> json) list \<Rightarrow>
   resolver \<Rightarrow> trace \<times> resolver" where
  "run_validators eng table inst sch [] r = (([], None), r)"
| "run_validators eng table inst sch (kv # rest) r =
     (case map_of table (fst kv) of
        None \<Rightarrow> run_validators eng table inst sch rest r
      | Some validator \<Rightarrow>
          (case validator eng (snd kv) inst sch r of
             ((errors, Some x), r1) \<Rightarrow>
               ((map (stamp (fst kv) (snd kv) inst sch) errors, Some x), r1)
           | ((errors, None), r1) \<Rightarrow>
               (case run_validators eng table inst sch rest r1 of
                  ((later, ex), r2) \<Rightarrow>
                    ((map (stamp (fst kv) (snd kv) inst sch) errors @ later, ex), r2))))"

text \<open>The \<^verbatim>\<open>try\<close> block of \<^verbatim>\<open>iter_errors\<close>.\<close>

definition try_block :: "engine \<Rightarrow> validator \<Rightarrow> json \<Rightarrow> json \<Rightarrow> resolver \<Rightarrow> trace \<times> resolver" where
  "try_block eng self inst sch r =
     (case applicable_validators (cls self) sch of
        Inl x \<Rightarrow> (([], Some x), r)
      | Inr pairs \<Rightarrow> run_validators eng (VALIDATORS (cls self)) inst sch pairs r)"

text \<open>
  \<^verbatim>\<open>iter_errors(instance, _schema)\<close>, run to its end, for a given engine \<open>eng\<close> that the
  callables re-enter. The scope is pushed before the \<^verbatim>\<open>try\<close>, and popped in its
  \<^verbatim>\<open>finally\<close> clause, when the id is truthy.
\<close>

definition iter_errors_body ::
  "engine \<Rightarrow> pyenv \<Rightarrow> validator \<Rightarrow> json \<Rightarrow> json \<Rightarrow> resolver \<Rightarrow> trace \<times> resolver" where
  "iter_errors_body eng env self inst schema0 r =
     (let sch = (if schema0 = JNull then schema self else schema0) in
      if sch = JBool True then (([], None), r)
      else if sch = JBool False then (([false_schema_error env inst], None), r)
      else
        (case ID_OF (cls self) sch of
           Inl x \<Rightarrow> (([], Some x), r)
         | Inr scope \<Rightarrow>
             if truthy scope
             then (case push_scope env r scope of
                     Inl x \<Rightarrow> (([], Some x), r)
                   | Inr r1 \<Rightarrow>
                       (case try_block eng self inst sch r1 of
                          ((errors, ex), r2) \<Rightarrow>
                            (case pop_scope r2 of
                               Inl x \<Rightarrow> ((errors, Some x), r2)
                             | Inr r3 \<Rightarrow> ((errors, ex), r3))))
             else try_block eng self inst sch r))"

text \<open>
  The recursion of the engine through its callables is bounded by the interpreter's
  recursion limit: \<open>n\<close> is the number of nested re-entries still allowed, and a re-entry
  beyond it raises \<^verbatim>\<open>RecursionError\<close>.
\<close>

definition recursion_limit_reached :: engine where
  "recursion_limit_reached inst sch r = (([], Some RecursionError), r)"

primrec iter_errors :: "nat \<Rightarrow> pyenv \<Rightarrow> validator \<Rightarrow> engine" where
  "iter_errors 0 env self = iter_errors_body recursion_limit_reached env self"
| "iter_errors (Suc n) env self = iter_errors_body (iter_errors n env self) env self"

text \<open>\<^verbatim>\<open>descend\<close>, as a callable uses it on the engine it was given.\<close>

definition descend ::
  "engine \<Rightarrow> json \<Rightarrow> json \<Rightarrow> pelem option \<Rightarrow> pelem option \<Rightarrow> resolver \<Rightarrow> trace \<times> resolver" where
  "descend eng inst sch path_arg schema_path_arg r =
     (case eng inst sch r of
        ((errors, ex), r') \<Rightarrow>
          ((map (\<lambda>e.
              (case schema_path_arg of
                 None \<Rightarrow> (\<lambda>e. e)
               | Some sp \<Rightarrow> appendleft_schema_path sp)
              ((case path_arg of None \<Rightarrow> (\<lambda>e. e) | Some p \<Rightarrow> appendleft_path p) e))
            errors, ex), r'))"

text \<open>\<^verbatim>\<open>next(generator, None)\<close> on a trace: its first diagnostic; the exception when the
  generator raises before yielding; \<open>None\<close> when it ends without yielding.\<close>

definition next_or_none :: "trace \<Rightarrow> pyexn + verror option" where
  "next_or_none t =
     (case t of
        (e # rest, ex) \<Rightarrow> Inr (Some e)
      | ([], Some x) \<Rightarrow> Inl x
      | ([], None) \<Rightarrow> Inr None)"

definition is_valid :: "nat \<Rightarrow> pyenv \<Rightarrow> validator \<Rightarrow> json \<Rightarrow> json \<Rightarrow> resolver \<Rightarrow> pyexn + bool" where
  "is_valid n env self inst schema0 r =
     (case next_or_none (fst (iter_errors n env self inst schema0 r)) of
        Inl x \<Rightarrow> Inl x
      | Inr error \<Rightarrow> Inr (error = None))"

text \<open>The method \<^verbatim>\<open>validate\<close>: the body of its \<^verbatim>\<open>for\<close> loop raises the first error.\<close>

definition validate_method ::
  "nat \<Rightarrow> pyenv \<Rightarrow> validator \<Rightarrow> json \<Rightarrow> json \<Rightarrow> resolver \<Rightarrow> pyexn + unit" where
  "validate_method n env self inst schema0 r =
     (case next_or_none (fst (iter_errors n env self inst schema0 r)) of
        Inl x \<Rightarrow> Inl x
      | Inr (Some error) \<Rightarrow> Inl (ValidationError error)
      | Inr None \<Rightarrow> Inr ())"

section \<open>Balanced use of the scope stack\<close>

text \<open>
  What the engine needs of the callables of a class, which are not among the sources: a
  callable leaves the scope stack at the depth it found it, whenever the engine it
  re-enters does. (The spec has the callables "pure": none "reads or writes engine state
  beyond what it's given".)
\<close>

definition balanced_engine :: "engine \<Rightarrow> bool" where
  "balanced_engine eng = (\<forall>inst sch r. depth (snd (eng inst sch r)) = depth r)"

definition balanced_callable :: "callable \<Rightarrow> bool" where
  "balanced_callable f =
     (\<forall>eng v inst sch r. balanced_engine eng \<longrightarrow> depth (snd (f eng v inst sch r)) = depth r)"

definition balanced_table :: "(string \<times> callable) list \<Rightarrow> bool" where
  "balanced_table table = (\<forall>k f. map_of table k = Some f \<longrightarrow> balanced_callable f)"

definition balanced_block :: "(json \<Rightarrow> resolver \<Rightarrow> trace \<times> resolver) \<Rightarrow> bool" where
  "balanced_block body = (\<forall>d r. depth (snd (body d r)) = depth r)"

section \<open>Construction, schema checking and the module's entry points\<close>

text \<open>\<^verbatim>\<open>_store_schema_list()\<close> made into the initial store.\<close>

definition store_schema_list :: "registry \<Rightarrow> (string \<times> json) list" where
  "store_schema_list reg =
     dict_update (map (\<lambda>kv. (fst kv, META_SCHEMA (snd kv))) (meta_schemas reg)) (VOCABULARIES reg)"

text \<open>
  \<^verbatim>\<open>RefResolver.from_schema(schema, id_of=id_of)\<close> with the constructor's defaults: no extra
  store, \<^verbatim>\<open>cache_remote=True\<close>, no handlers; the stack starts with the base URI and the
  referrer is stored under it.
\<close>

definition from_schema ::
  "pyenv \<Rightarrow> registry \<Rightarrow> json \<Rightarrow> (json \<Rightarrow> pyexn + json) \<Rightarrow> pyexn + resolver" where
  "from_schema env reg sch id_of =
     (case id_of sch of
        Inl x \<Rightarrow> Inl x
      | Inr base_uri \<Rightarrow>
          (case uri_set env (store_schema_list reg) base_uri sch of
             Inl x \<Rightarrow> Inl x
           | Inr st \<Rightarrow>
               Inr \<lparr> referrer = sch, cache_remote = True, handlers = [],
                     scopes_stack = [base_uri], store = st, remote_memo = [] \<rparr>))"

text \<open>\<^verbatim>\<open>cls(schema)\<close>: the constructor makes a resolver from the schema when it is given
  none.\<close>

definition new_validator ::
  "pyenv \<Rightarrow> registry \<Rightarrow> validator_cls \<Rightarrow> json \<Rightarrow> pyexn + validator \<times> resolver" where
  "new_validator env reg c sch =
     (case from_schema env reg sch (ID_OF c) of
        Inl x \<Rightarrow> Inl x
      | Inr r \<Rightarrow> Inr (\<lparr> cls = c, schema = sch, format_checker = None \<rparr>, r))"

text \<open>\<^verbatim>\<open>check_schema\<close>: the first error of the schema under the class's meta-schema is
  raised as a \<^verbatim>\<open>SchemaError\<close>.\<close>

definition check_schema ::
  "nat \<Rightarrow> pyenv \<Rightarrow> registry \<Rightarrow> validator_cls \<Rightarrow> json \<Rightarrow> pyexn + unit" where
  "check_schema n env reg c sch =
     (case new_validator env reg c (META_SCHEMA c) of
        Inl x \<Rightarrow> Inl x
      | Inr (v, r) \<Rightarrow>
          (case next_or_none (fst (iter_errors n env v sch JNull r)) of
             Inl x \<Rightarrow> Inl x
           | Inr (Some error) \<Rightarrow> Inl (SchemaError error)
           | Inr None \<Rightarrow> Inr ()))"

text \<open>\<^verbatim>\<open>key in schema\<close> for whatever the schema is: a dict's keys, a list's elements, a
  string's substrings; \<^verbatim>\<open>TypeError\<close> otherwise.\<close>

fun is_substring :: "string \<Rightarrow> string \<Rightarrow> bool" where
  "is_substring k [] = (k = [])"
| "is_substring k (x # xs) = (take (length k) (x # xs) = k \<or> is_substring k xs)"

definition contains_key :: "json \<Rightarrow> string \<Rightarrow> pyexn + bool" where
  "contains_key sch k =
     (case sch of
        JObj kvs \<Rightarrow> Inr (has_key kvs k)
      | JArr xs \<Rightarrow> Inr (JStr k \<in> set xs)
      | JStr s \<Rightarrow> Inr (is_substring k s)
      | _ \<Rightarrow> Inl TypeError)"

text \<open>Lookup in a URI-keyed registry (\<^verbatim>\<open>in\<close> and \<^verbatim>\<open>get\<close>): the key is normalised, which can
  raise; \<^verbatim>\<open>KeyError\<close> is absence.\<close>

definition uri_get :: "pyenv \<Rightarrow> (string \<times> 'v) list \<Rightarrow> json \<Rightarrow> pyexn + 'v option" where
  "uri_get env d uri =
     (case uri_normalize env uri of
        Inl x \<Rightarrow> (if x = KeyError then Inr None else Inl x)
      | Inr key \<Rightarrow> Inr (map_of d key))"

definition metaschema_warning :: string where
  "metaschema_warning =
     ''The metaschema specified by $schema was not found. Using the latest draft to validate, but this will raise an error in the future.''"

text \<open>
  \<^verbatim>\<open>validator_for(schema, default)\<close>, with the \<^verbatim>\<open>DeprecationWarning\<close>s it emits. A \<open>default\<close>
  the caller leaves out is \<^verbatim>\<open>_LATEST_VERSION\<close>.
\<close>

definition validator_for ::
  "pyenv \<Rightarrow> registry \<Rightarrow> json \<Rightarrow> validator_cls option \<Rightarrow> pyexn + validator_cls \<times> string list" where
  "validator_for env reg sch default_arg =
     (let default = (case default_arg of None \<Rightarrow> LATEST_VERSION reg | Some d \<Rightarrow> d) in
      case sch of
        JBool b \<Rightarrow> Inr (default, [])
      | _ \<Rightarrow>
          (case contains_key sch ''$schema'' of
             Inl x \<Rightarrow> Inl x
           | Inr False \<Rightarrow> Inr (default, [])
           | Inr True \<Rightarrow>
               (case getitem sch (Inl ''$schema'') of
                  Inl x \<Rightarrow> Inl x
                | Inr uri \<Rightarrow>
                    (case uri_get env (meta_schemas reg) uri of
                       Inl x \<Rightarrow> Inl x
                     | Inr None \<Rightarrow> Inr (LATEST_VERSION reg, [metaschema_warning])
                     | Inr (Some c) \<Rightarrow> Inr (c, [])))))"

text \<open>
  Modelled from the spec: \<^verbatim>\<open>exceptions.best_match\<close> is not among the sources; the spec has
  it select "the single most relevant" diagnostic of a sequence. It reads the whole
  sequence, so an exception of the generator propagates; of no diagnostics it selects
  none; the heuristic is the parameter \<open>most_relevant\<close>.
\<close>

definition best_match :: "pyenv \<Rightarrow> trace \<Rightarrow> pyexn + verror option" where
  "best_match env t =
     (case t of
        (errors, Some x) \<Rightarrow> Inl x
      | (errors, None) \<Rightarrow> Inr (if errors = [] then None else Some (most_relevant env errors)))"

text \<open>
  The module's \<^verbatim>\<open>validate(instance, schema, cls=None)\<close>, with the warnings emitted: the class
  is chosen by \<^verbatim>\<open>validator_for\<close> when none is given, the schema is checked, and the best
  match of the instance's errors is raised.
\<close>

definition validate ::
  "nat \<Rightarrow> pyenv \<Rightarrow> registry \<Rightarrow> json \<Rightarrow> json \<Rightarrow> validator_cls option \<Rightarrow>
   (pyexn + unit) \<times> string list" where
  "validate n env reg inst sch cls_arg =
     (case (case cls_arg of None \<Rightarrow> validator_for env reg sch None | Some c \<Rightarrow> Inr (c, [])) of
        Inl x \<Rightarrow> (Inl x, [])
      | Inr (c, warnings) \<Rightarrow>
          (case check_schema n env reg c sch of
             Inl x \<Rightarrow> (Inl x, warnings)
           | Inr u \<Rightarrow>
               (case new_validator env reg c sch of
                  Inl x \<Rightarrow> (Inl x, warnings)
                | Inr (v, r) \<Rightarrow>
                    (case best_match env (fst (iter_errors n env v inst JNull r)) of
                       Inl x \<Rightarrow> (Inl x, warnings)
                     | Inr (Some error) \<Rightarrow> (Inl (ValidationError error), warnings)
                     | Inr None \<Rightarrow> (Inr (), warnings)))))"

text \<open>
  Modelled from the spec: the callable of \<^verbatim>\<open>$ref\<close> (\<^verbatim>\<open>_validators.ref\<close>) is not among the
  sources; the spec has the engine's \<^verbatim>\<open>$ref\<close> handling validate the instance against the
  dereferenced schema inside the scoped resolution \<^verbatim>\<open>resolving\<close>.
\<close>

definition ref_callable :: "pyenv \<Rightarrow> callable" where
  "ref_callable env eng ref inst sch r =
     resolving env ref (\<lambda>resolved. descend eng inst resolved None None) r"

text \<open>
  Modelled from the spec: \<^verbatim>\<open>_legacy_validators.ignore_ref_siblings\<close> is not among the
  sources; the spec has some versions ignore "sibling keywords next to a reference keyword".
\<close>

definition ignore_ref_siblings :: "json \<Rightarrow> pyexn + (string \<times> json) list" where
  "ignore_ref_siblings sch =
     (case sch of
        JObj kvs \<Rightarrow>
          (case map_of kvs ''$ref'' of
             Some ref \<Rightarrow> Inr [(''$ref'', ref)]
           | None \<Rightarrow> Inr kvs)
      | _ \<Rightarrow> Inl AttributeError)"

section \<open>A concrete host library for evaluation\<close>

text \<open>
  The closed theorems below evaluate the model with these functions in place of the host
  library. Each is exact on the inputs evaluated there and a stand-in beyond them:
  \<open>urljoin0\<close> follows \<^verbatim>\<open>urljoin\<close> for an unhashable argument (\<^verbatim>\<open>TypeError\<close> of the cache), an
  empty reference or base, arguments that are not strings, an absolute reference and a
  reference that is only a fragment; \<open>urldefrag0\<close> splits at the first \<^verbatim>\<open>#\<close>;
  \<open>unquote0\<close> decodes the escapes of ASCII characters; \<open>py_int0\<close> reads an optional sign
  and ASCII digits; \<open>py_repr0\<close> quotes a string without escaping any character; the default fetch has no
  network; \<open>most_relevant0\<close> is the spec's "prefer the diagnostic from the deepest schema
  path", the first of them.
\<close>

definition urldefrag0 :: "string \<Rightarrow> string \<times> string" where
  "urldefrag0 url =
     (takeWhile (\<lambda>c. c \<noteq> CHR ''#'') url, drop 1 (dropWhile (\<lambda>c. c \<noteq> CHR ''#'') url))"

definition has_scheme :: "string \<Rightarrow> bool" where
  "has_scheme url =
     (let head = takeWhile (\<lambda>c. c \<noteq> CHR '':'') url
      in head \<noteq> [] \<and> length head < length url
         \<and> list_all (\<lambda>c. c \<noteq> CHR ''/'' \<and> c \<noteq> CHR ''#'' \<and> c \<noteq> CHR ''?'') head)"

definition join_str :: "string \<Rightarrow> string \<Rightarrow> string" where
  "join_str base url =
     (if has_scheme url then url
      else if take 1 url = ''#'' then fst (urldefrag0 base) @ url
      else rev (dropWhile (\<lambda>c. c \<noteq> CHR ''/'') (rev (fst (urldefrag0 base)))) @ url)"

definition urljoin0 :: "json \<Rightarrow> json \<Rightarrow> pyexn + json" where
  "urljoin0 base url =
     (case (base, url) of
        (JArr xs, u) \<Rightarrow> Inl TypeError
      | (JObj kvs, u) \<Rightarrow> Inl TypeError
      | (b, JArr xs) \<Rightarrow> Inl TypeError
      | (b, JObj kvs) \<Rightarrow> Inl TypeError
      | (b, u) \<Rightarrow>
          if \<not> truthy u then Inr b
          else if \<not> truthy b then Inr u
          else (case (b, u) of
                  (JStr bs, JStr us) \<Rightarrow> Inr (JStr (join_str bs us))
                | _ \<Rightarrow> Inl TypeError))"

definition hexval :: "char \<Rightarrow> nat option" where
  "hexval c =
     (let n = of_char c :: nat
      in if 48 \<le> n \<and> n \<le> 57 then Some (n - 48)
         else if 65 \<le> n \<and> n \<le> 70 then Some (n - 55)
         else if 97 \<le> n \<and> n \<le> 102 then Some (n - 87)
         else None)"

fun unquote0 :: "string \<Rightarrow> string" where
  "unquote0 (p # h # l # rest) =
     (case (if p = CHR ''%'' then hexval h else None, hexval l) of
        (Some a, Some b) \<Rightarrow>
          if 16 * a + b < 128 then char_of (16 * a + b) # unquote0 rest
          else p # unquote0 (h # l # rest)
      | _ \<Rightarrow> p # unquote0 (h # l # rest))"
| "unquote0 s = s"

definition digit_of :: "char \<Rightarrow> nat option" where
  "digit_of c = (let n = of_char c :: nat in if 48 \<le> n \<and> n \<le> 57 then Some (n - 48) else None)"

fun digits_nat :: "nat \<Rightarrow> string \<Rightarrow> nat option" where
  "digits_nat acc [] = Some acc"
| "digits_nat acc (c # cs) =
     (case digit_of c of None \<Rightarrow> None | Some d \<Rightarrow> digits_nat (10 * acc + d) cs)"

definition py_int0 :: "string \<Rightarrow> int option" where
  "py_int0 s =
     (case s of
        [] \<Rightarrow> None
      | c # cs \<Rightarrow>
          if c = CHR ''-'' then (if cs = [] then None else map_option (\<lambda>n. - int n) (digits_nat 0 cs))
          else if c = CHR ''+'' then (if cs = [] then None else map_option int (digits_nat 0 cs))
          else map_option int (digits_nat 0 (c # cs)))"

fun show_nat :: "nat \<Rightarrow> string" where
  "show_nat n =
     (if n < 10 then [char_of (48 + n)] else show_nat (n div 10) @ [char_of (48 + n mod 10)])"

definition quoted :: "string \<Rightarrow> string" where
  "quoted s = [CHR 0x27] @ s @ [CHR 0x27]"

fun py_repr0 :: "json \<Rightarrow> string"
  and repr_elems :: "json list \<Rightarrow> string"
  and repr_items :: "(string \<times> json) list \<Rightarrow> string" where
  "py_repr0 JNull = ''None''"
| "py_repr0 (JBool b) = (if b then ''True'' else ''False'')"
| "py_repr0 (JInt i) = (if i < 0 then ''-'' @ show_nat (nat (- i)) else show_nat (nat i))"
| "py_repr0 (JStr s) = quoted s"
| "py_repr0 (JArr xs) = ''['' @ repr_elems xs @ '']''"
| "py_repr0 (JObj kvs) = ''{'' @ repr_items kvs @ ''}''"
| "repr_elems [] = []"
| "repr_elems (x # xs) = py_repr0 x @ (if xs = [] then [] else '', '' @ repr_elems xs)"
| "repr_items [] = []"
| "repr_items ((k, v) # kvs) =
     quoted k @ '': '' @ py_repr0 v @ (if kvs = [] then [] else '', '' @ repr_items kvs)"

definition uri_normalize0 :: "json \<Rightarrow> pyexn + string" where
  "uri_normalize0 j =
     (case j of JStr s \<Rightarrow> Inr s | _ \<Rightarrow> if truthy j then Inl AttributeError else Inr [])"

fun most_relevant0 :: "verror list \<Rightarrow> verror" where
  "most_relevant0 [] = VError [] Unset Unset Unset Unset [] [] []"
| "most_relevant0 [e] = e"
| "most_relevant0 (e # e' # es) =
     (let best = most_relevant0 (e' # es)
      in if length (schema_path best) > length (schema_path e) then best else e)"

definition env0 :: pyenv where
  "env0 =
     \<lparr> urljoin = urljoin0,
       urldefrag = urldefrag0,
       unquote = unquote0,
       urlsplit_scheme = (\<lambda>uri. if has_scheme uri then takeWhile (\<lambda>c. c \<noteq> CHR '':'') uri else []),
       py_int = py_int0,
       py_repr = py_repr0,
       urlopen_json = (\<lambda>uri. Inl (OtherError ''URLError'')),
       uri_normalize = uri_normalize0,
       most_relevant = most_relevant0 \<rparr>"

section \<open>A sample class and schema for evaluation\<close>

text \<open>
  The module as imported registers the drafts it ships, whose meta-schemas and callables
  are not among the sources; the evaluations below use registries and classes of their
  own, built from callables in the shape of the extension point.
\<close>

text \<open>
  A callable in the shape of the extension point, behaving as the keyword \<^verbatim>\<open>const\<close> does:
  one diagnostic unless the instance equals the keyword's value.
\<close>

definition const_callable :: "pyenv \<Rightarrow> callable" where
  "const_callable env eng v inst sch r =
     (if inst = v then (([], None), r)
      else (([VError (py_repr env v @ '' was expected'') Unset Unset Unset Unset [] [] []],
             None), r))"

definition empty_registry :: registry where
  "empty_registry =
     \<lparr> validators = [], meta_schemas = [], VOCABULARIES = [],
       LATEST_VERSION =
         \<lparr> VALIDATORS = [], META_SCHEMA = JObj [], VOCABULARY_SCHEMAS = [],
           TYPE_CHECKER = (\<lambda>inst name. None), ID_OF = id_of_default,
           applicable_validators = items_of \<rparr>,
       draft7_type_checker = (\<lambda>inst name. None) \<rparr>"

definition sample_cls :: validator_cls where
  "sample_cls =
     \<lparr> VALIDATORS = [(''$ref'', ref_callable env0), (''const'', const_callable env0)],
       META_SCHEMA = JObj [],
       VOCABULARY_SCHEMAS = [],
       TYPE_CHECKER = (\<lambda>inst name. None),
       ID_OF = id_of_default,
       applicable_validators = items_of \<rparr>"

text \<open>The schema
  \<^verbatim>\<open>{"$id": "http://example.com/root", "$ref": "#/definitions/one", "definitions": {"one": {"const": 1}}}\<close>,
  an instance of the sample class for it, and the resolver its constructor makes.\<close>

definition sample_schema :: json where
  "sample_schema =
     JObj [(''$id'', JStr ''http://example.com/root''),
           (''$ref'', JStr ''#/definitions/one''),
           (''definitions'', JObj [(''one'', JObj [(''const'', JInt 1)])])]"

definition sample_validator :: validator where
  "sample_validator = \<lparr> cls = sample_cls, schema = sample_schema, format_checker = None \<rparr>"

definition sample_resolver :: resolver where
  "sample_resolver =
     \<lparr> referrer = sample_schema, cache_remote = True, handlers = [],
       scopes_stack = [JStr ''http://example.com/root''],
       store = [(''http://example.com/root'', sample_schema)], remote_memo = [] \<rparr>"

text \<open>
  A registry with one registered meta-schema URI, whose latest version is the sample
  class; a parent class that ignores the siblings of \<^verbatim>\<open>$ref\<close> and has a vocabulary
  schema; and the schema \<^verbatim>\<open>{"$ref": "#/definitions/any", "const": 1, "definitions": {"any": {"title": "any"}}}\<close>.
\<close>

definition legacy_cls :: validator_cls where
  "legacy_cls =
     \<lparr> VALIDATORS = [(''$ref'', ref_callable env0), (''const'', const_callable env0)],
       META_SCHEMA = JObj [(''$id'', JStr ''http://json-schema.org/draft-07/schema'')],
       VOCABULARY_SCHEMAS = [JObj [(''$id'', JStr ''http://example.com/vocab'')]],
       TYPE_CHECKER = (\<lambda>inst name. Some True),
       ID_OF = id_of_default,
       applicable_validators = ignore_ref_siblings \<rparr>"

definition sample_registry :: registry where
  "sample_registry =
     \<lparr> validators = [(''draft7'', legacy_cls)],
       meta_schemas = [(''http://json-schema.org/draft-07/schema'', legacy_cls)],
       VOCABULARIES = [],
       LATEST_VERSION = sample_cls,
       draft7_type_checker = (\<lambda>inst name. None) \<rparr>"

definition sibling_schema :: json where
  "sibling_schema =
     JObj [(''$ref'', JStr ''#/definitions/any''),
           (''const'', JInt 1),
           (''definitions'', JObj [(''any'', JObj [(''title'', JStr ''any'')])])]"

definition sibling_resolver :: resolver where
  "sibling_resolver =
     \<lparr> referrer = sibling_schema, cache_remote = True, handlers = [],
       scopes_stack = [JStr []], store = [([], sibling_schema)], remote_memo = [] \<rparr>"

text \<open>What \<^verbatim>\<open>extend(legacy_cls)\<close> is to return: the legacy class's table, meta-schema, type
  checker and id function, with the defaults for the rest.\<close>

definition extended_cls :: validator_cls where
  "extended_cls =
     \<lparr> VALIDATORS = dict_update (VALIDATORS legacy_cls) [],
       META_SCHEMA = META_SCHEMA legacy_cls,
       VOCABULARY_SCHEMAS = [],
       TYPE_CHECKER = TYPE_CHECKER legacy_cls,
       ID_OF = ID_OF legacy_cls,
       applicable_validators = items_of \<rparr>"

text \<open>The schema \<^verbatim>\<open>{"$schema": "http://example.com/unknown", "const": 1}\<close>.\<close>

definition unknown_metaschema_schema :: json where
  "unknown_metaschema_schema =
     JObj [(''$schema'', JStr ''http://example.com/unknown''), (''const'', JInt 1)]"

text \<open>A block for \<^verbatim>\<open>with resolver.resolving(ref)\<close> that raises at once.\<close>

definition raising_block :: "json \<Rightarrow> resolver \<Rightarrow> trace \<times> resolver" where
  "raising_block resolved r = (([], Some (OtherError ''raised in the block'')), r)"

text \<open>The diagnostic the sample validator yields for the instance \<^verbatim>\<open>2\<close>: the error of
  \<^verbatim>\<open>const\<close> under the dereferenced schema, passed on by \<^verbatim>\<open>$ref\<close>.\<close>

definition sample_error :: verror where
  "sample_error =
     VError ''1 was expected'' (Given (Some ''const'')) (Given (JInt 1)) (Given (JInt 2))
       (Given (JObj [(''const'', JInt 1)])) [] [PKey ''const''] []"

text \<open>
  Two more classes for evaluation. The strict class's meta-schema
  \<^verbatim>\<open>{"const": {"const": 1}}\<close> accepts the schema \<^verbatim>\<open>{"const": 1}\<close> only. The ranked class has
  two keywords whose callables yield one fixed diagnostic each: the first at the instance
  path \<^verbatim>\<open>a\<close>, the second at the root of the instance and deeper in the schema.
\<close>

definition strict_cls :: validator_cls where
  "strict_cls =
     \<lparr> VALIDATORS = [(''const'', const_callable env0)],
       META_SCHEMA = JObj [(''const'', JObj [(''const'', JInt 1)])],
       VOCABULARY_SCHEMAS = [],
       TYPE_CHECKER = (\<lambda>inst name. None),
       ID_OF = id_of_default,
       applicable_validators = items_of \<rparr>"

definition yields :: "verror list \<Rightarrow> callable" where
  "yields errors eng v inst sch r = ((errors, None), r)"

definition ranked_cls :: validator_cls where
  "ranked_cls =
     \<lparr> VALIDATORS =
         [(''first'', yields [VError ''first'' Unset Unset Unset Unset [PKey ''a''] [] []]),
          (''second'', yields [VError ''second'' Unset Unset Unset Unset []
                                [PKey ''x'', PKey ''y''] []])],
       META_SCHEMA = JObj [],
       VOCABULARY_SCHEMAS = [],
       TYPE_CHECKER = (\<lambda>inst name. None),
       ID_OF = id_of_default,
       applicable_validators = items_of \<rparr>"

definition ranked_schema :: json where
  "ranked_schema = JObj [(''first'', JInt 0), (''second'', JInt 0)]"

definition ranked_resolver :: resolver where
  "ranked_resolver =
     \<lparr> referrer = ranked_schema, cache_remote = True, handlers = [],
       scopes_stack = [JStr []], store = [([], ranked_schema)], remote_memo = [] \<rparr>"

definition empty_schema_resolver :: resolver where
  "empty_schema_resolver =
     \<lparr> referrer = JObj [], cache_remote = True, handlers = [],
       scopes_stack = [JStr []], store = [([], JObj [])], remote_memo = [] \<rparr>"

text \<open>What an entry point raised: the kind of the exception and the message of the
  diagnostic it carries.\<close>

definition raised_kind :: "pyexn + unit \<Rightarrow> string" where
  "raised_kind res =
     (case res of
        Inr u \<Rightarrow> ''nothing''
      | Inl (SchemaError e) \<Rightarrow> ''SchemaError''
      | Inl (ValidationError e) \<Rightarrow> ''ValidationError''
      | Inl x \<Rightarrow> ''another exception'')"

definition raised_message :: "pyexn + unit \<Rightarrow> string" where
  "raised_message res =
     (case res of
        Inl (SchemaError e) \<Rightarrow> message e
      | Inl (ValidationError e) \<Rightarrow> message e
      | _ \<Rightarrow> [])"

definition strict_validator :: validator where
  "strict_validator = \<lparr> cls = strict_cls, schema = JObj [], format_checker = None \<rparr>"

definition ranked_validator :: validator where
  "ranked_validator = \<lparr> cls = ranked_cls, schema = ranked_schema, format_checker = None \<rparr>"

text \<open>
  A referrer with an embedded subschema of its own id,
  \<^verbatim>\<open>{"sub": {"$id": "http://example.com/s", "d": {}}}\<close>, and the resolver
  \<^verbatim>\<open>RefResolver.from_schema\<close> makes for it: the base URI is empty.
\<close>

definition embedded_schema :: json where
  "embedded_schema =
     JObj [(''sub'', JObj [(''$id'', JStr ''http://example.com/s''), (''d'', JObj [])])]"

definition embedded_resolver :: resolver where
  "embedded_resolver =
     \<lparr> referrer = embedded_schema, cache_remote = True, handlers = [],
       scopes_stack = [JStr []], store = [([], embedded_schema)], remote_memo = [] \<rparr>"

text \<open>
  The pointer segment that addresses a property name, in the spec's words: a name
  "literally containing \<^verbatim>\<open>/\<close> or \<^verbatim>\<open>~\<close> is addressable via a pointer segment using
  \<^verbatim>\<open>~1\<close>/\<^verbatim>\<open>~0\<close> respectively".
\<close>

fun escape :: "string \<Rightarrow> string" where
  "escape [] = []"
| "escape (c # cs) =
     (if c = CHR ''~'' then ''~0'' else if c = CHR ''/'' then ''~1'' else [c]) @ escape cs"

text \<open>The documents \<^verbatim>\<open>{"a": {"$anchor": "/x"}}\<close>, \<^verbatim>\<open>{"allOf": [{"$anchor": "foo"}]}\<close> and
  \<^verbatim>\<open>{"a/b": [1, "xyz"], "m~n": 8}\<close>.\<close>

definition slash_anchor_doc :: json where
  "slash_anchor_doc = JObj [(''a'', JObj [(''$anchor'', JStr ''/x'')])]"

definition list_anchor_doc :: json where
  "list_anchor_doc = JObj [(''allOf'', JArr [JObj [(''$anchor'', JStr ''foo'')]])]"

definition pointer_doc :: json where
  "pointer_doc = JObj [(''a/b'', JArr [JInt 1, JStr ''xyz'']), (''m~n'', JInt 8)]"

text \<open>The resolvers the constructor makes, under the sample registry, for the sample
  class's meta-schema \<^verbatim>\<open>{}\<close> and for the schema with the unknown meta-schema; and the
  diagnostic of \<^verbatim>\<open>const\<close> for the instance \<^verbatim>\<open>2\<close> under that schema.\<close>

definition latest_meta_resolver :: resolver where
  "latest_meta_resolver =
     \<lparr> referrer = JObj [], cache_remote = True, handlers = [],
       scopes_stack = [JStr []],
       store = [(''http://json-schema.org/draft-07/schema'', META_SCHEMA legacy_cls),
                ([], JObj [])],
       remote_memo = [] \<rparr>"

definition unknown_resolver :: resolver where
  "unknown_resolver =
     \<lparr> referrer = unknown_metaschema_schema, cache_remote = True, handlers = [],
       scopes_stack = [JStr []],
       store = [(''http://json-schema.org/draft-07/schema'', META_SCHEMA legacy_cls),
                ([], unknown_metaschema_schema)],
       remote_memo = [] \<rparr>"

definition unknown_error :: verror where
  "unknown_error =
     VError ''1 was expected'' (Given (Some ''const'')) (Given (JInt 1)) (Given (JInt 2))
       (Given unknown_metaschema_schema) [] [PKey ''const''] []"

text \<open>The document
  \<^verbatim>\<open>{"p": {"$dynamicAnchor": "n", "id": 1}, "q": {"$anchor": "n", "id": 2}, "r": {"$anchor": "n", "id": 3}, "t": {"$dynamicAnchor": "m", "id": 4}}\<close>
  and its members.\<close>

definition anchor_p :: json where
  "anchor_p = JObj [(''$dynamicAnchor'', JStr ''n''), (''id'', JInt 1)]"

definition anchor_q :: json where
  "anchor_q = JObj [(''$anchor'', JStr ''n''), (''id'', JInt 2)]"

definition anchor_r :: json where
  "anchor_r = JObj [(''$anchor'', JStr ''n''), (''id'', JInt 3)]"

definition anchor_t :: json where
  "anchor_t = JObj [(''$dynamicAnchor'', JStr ''m''), (''id'', JInt 4)]"

definition anchors_doc :: json where
  "anchors_doc =
     JObj [(''p'', anchor_p), (''q'', anchor_q), (''r'', anchor_r), (''t'', anchor_t)]"

section \<open>Properties of the engine\<close>

text \<open>
  Claim C6. For every instance, \<^verbatim>\<open>iter_errors\<close> against the schema \<^verbatim>\<open>True\<close> yields no
  diagnostic, and against the schema \<^verbatim>\<open>False\<close> exactly one, whose message says that the
  false schema does not allow the instance; this holds for the schema passed as
  \<^verbatim>\<open>_schema\<close> and for the schema the validator is bound to, at every recursion depth, and
  the resolver is left as it was.
\<close>

theorem iter_errors_boolean_schemas:
  "iter_errors n env self inst (JBool True) r = (([], None), r)
   \<and> iter_errors n env self inst (JBool False) r = (([false_schema_error env inst], None), r)
   \<and> iter_errors n env (self\<lparr>schema := JBool True\<rparr>) inst JNull r = (([], None), r)
   \<and> iter_errors n env (self\<lparr>schema := JBool False\<rparr>) inst JNull r
       = (([false_schema_error env inst], None), r)
   \<and> message (false_schema_error env inst) = ''False schema does not allow '' @ py_repr env inst
   \<and> err_instance (false_schema_error env inst) = Given inst
   \<and> err_schema (false_schema_error env inst) = Given (JBool False)"
  by (cases n) (simp_all add: iter_errors_body_def false_schema_error_def)

theorem iter_errors_boolean_schemas_witness:
  "fst (iter_errors 3 env0 sample_validator (JInt 7) (JBool True) sample_resolver) = ([], None)
   \<and> map message (fst (fst (iter_errors 3 env0 sample_validator (JInt 7) (JBool False) sample_resolver)))
       = [''False schema does not allow 7'']"
proof -
  have "py_repr env0 (JInt 7) = ''7''" by code_simp
  then show ?thesis
    using iter_errors_boolean_schemas [of 3 env0 sample_validator "JInt 7" sample_resolver]
    by simp
qed

text \<open>
  Claim C1. \<^verbatim>\<open>is_valid(I, S)\<close> returns true exactly when \<^verbatim>\<open>iter_errors(I, S)\<close>, run to its
  end, yields no diagnostic and raises nothing. It returns false exactly when
  \<^verbatim>\<open>iter_errors\<close> yields a diagnostic, and it raises exactly when \<^verbatim>\<open>iter_errors\<close> raises
  before its first diagnostic.
\<close>

theorem is_valid_iff_no_errors:
  "(is_valid n env self inst sch r = Inr True
      \<longleftrightarrow> fst (iter_errors n env self inst sch r) = ([], None))
   \<and> (is_valid n env self inst sch r = Inr False
      \<longleftrightarrow> fst (fst (iter_errors n env self inst sch r)) \<noteq> [])
   \<and> (is_valid n env self inst sch r = Inl x
      \<longleftrightarrow> fst (iter_errors n env self inst sch r) = ([], Some x))"
  by (cases "fst (iter_errors n env self inst sch r)" rule: prod.exhaust)
     (auto simp: is_valid_def next_or_none_def split: list.splits option.splits)

theorem is_valid_iff_no_errors_witness:
  "is_valid 5 env0 sample_validator (JInt 1) JNull sample_resolver = Inr True
   \<and> is_valid 5 env0 sample_validator (JInt 2) JNull sample_resolver = Inr False
   \<and> is_valid 0 env0 sample_validator (JInt 2) JNull sample_resolver = Inl RecursionError"
proof -
  have a: "fst (iter_errors 5 env0 sample_validator (JInt 1) JNull sample_resolver) = ([], None)"
    by code_simp
  have b: "fst (fst (iter_errors 5 env0 sample_validator (JInt 2) JNull sample_resolver)) \<noteq> []"
    by code_simp
  have c: "fst (iter_errors 0 env0 sample_validator (JInt 2) JNull sample_resolver)
             = ([], Some RecursionError)"
    by code_simp
  show ?thesis
    using a b c
      is_valid_iff_no_errors [of 5 env0 sample_validator "JInt 1" JNull sample_resolver]
      is_valid_iff_no_errors [of 5 env0 sample_validator "JInt 2" JNull sample_resolver]
      is_valid_iff_no_errors [of 0 env0 sample_validator "JInt 2" JNull sample_resolver RecursionError]
    by simp
qed

section \<open>Properties of class construction and selection\<close>

lemma map_of_dict_update:
  "map_of (dict_update d new) k =
     (case map_of (rev new) k of Some f \<Rightarrow> Some f | None \<Rightarrow> map_of d k)"
  unfolding dict_update_def
proof (induction new arbitrary: d)
  case Nil
  show ?case by simp
next
  case (Cons kv new)
  show ?case
    by (simp add: Cons.IH update_conv' map_add_def split: option.splits)
qed

text \<open>
  Claim C10. \<^verbatim>\<open>extend(V, new_validators)\<close> returns a class whose keyword table is \<open>V\<close>'s
  overlaid with the new callables (a new entry replaces the old one of its name), with
  \<open>V\<close>'s meta-schema, type checker and id function; its vocabulary schemas are empty and
  its applicable validators are the default, every item of the schema mapping, whatever
  \<open>V\<close>'s were. Without a version the call cannot fail and leaves the registry as it was.
\<close>

theorem extend_overlays_and_resets:
  "extend env V new None tc reg =
     Inr (\<lparr> VALIDATORS = dict_update (VALIDATORS V) new,
            META_SCHEMA = META_SCHEMA V,
            VOCABULARY_SCHEMAS = [],
            TYPE_CHECKER = (case tc of None \<Rightarrow> TYPE_CHECKER V | Some t \<Rightarrow> t),
            ID_OF = ID_OF V,
            applicable_validators = items_of \<rparr>, reg)
   \<and> (extend env V new version None reg = Inr (V', reg') \<longrightarrow>
        META_SCHEMA V' = META_SCHEMA V
        \<and> TYPE_CHECKER V' = TYPE_CHECKER V
        \<and> ID_OF V' = ID_OF V
        \<and> VOCABULARY_SCHEMAS V' = []
        \<and> applicable_validators V' = items_of
        \<and> applicable_validators V' (JObj kvs) = Inr kvs
        \<and> map_of (VALIDATORS V') k =
            (case map_of (rev new) k of Some f \<Rightarrow> Some f | None \<Rightarrow> map_of (VALIDATORS V) k))"
  by (auto simp: extend_def create_def Let_def items_of_def map_of_dict_update
           split: option.splits sum.splits)

theorem extend_overlays_and_resets_witness:
  "extend env0 legacy_cls [] None None sample_registry = Inr (extended_cls, sample_registry)
   \<and> VOCABULARY_SCHEMAS legacy_cls \<noteq> [] \<and> VOCABULARY_SCHEMAS extended_cls = []
   \<and> applicable_validators legacy_cls sibling_schema = Inr [(''$ref'', JStr ''#/definitions/any'')]
   \<and> applicable_validators extended_cls sibling_schema = items_of sibling_schema
   \<and> fst (iter_errors 5 env0 \<lparr>cls = legacy_cls, schema = sibling_schema, format_checker = None\<rparr>
            (JInt 2) JNull sibling_resolver) = ([], None)
   \<and> map message (fst (fst (iter_errors 5 env0
            \<lparr>cls = extended_cls, schema = sibling_schema, format_checker = None\<rparr>
            (JInt 2) JNull sibling_resolver))) = [''1 was expected'']"
proof -
  have a: "fst (iter_errors 5 env0 \<lparr>cls = legacy_cls, schema = sibling_schema, format_checker = None\<rparr>
            (JInt 2) JNull sibling_resolver) = ([], None)"
    by code_simp
  have b: "map message (fst (fst (iter_errors 5 env0
            \<lparr>cls = extended_cls, schema = sibling_schema, format_checker = None\<rparr>
            (JInt 2) JNull sibling_resolver))) = [''1 was expected'']"
    by code_simp
  have c: "applicable_validators legacy_cls sibling_schema = Inr [(''$ref'', JStr ''#/definitions/any'')]"
    by (simp add: legacy_cls_def sibling_schema_def ignore_ref_siblings_def)
  show ?thesis
    using a b c extend_overlays_and_resets [of env0 legacy_cls "[]" None sample_registry]
    by (simp add: extended_cls_def legacy_cls_def)
qed

text \<open>
  Claim C9. For a schema that is a mapping with a \<^verbatim>\<open>$schema\<close> entry that is not a
  registered meta-schema URI, \<^verbatim>\<open>validator_for(schema, default)\<close> returns the latest
  version whatever the default is; with a \<^verbatim>\<open>$schema\<close> entry the result never depends on
  the default; the default is returned for a mapping without a \<^verbatim>\<open>$schema\<close> entry and for
  a boolean schema. "Not registered" is the registry's lookup finding nothing for the
  entry (the lookup normalises its key, which is outside the sources).
\<close>

theorem validator_for_default_honoured:
  "(map_of kvs ''$schema'' = Some uri \<and> uri_get env (meta_schemas reg) uri = Inr None \<longrightarrow>
      validator_for env reg (JObj kvs) dflt = Inr (LATEST_VERSION reg, [metaschema_warning]))
   \<and> (map_of kvs ''$schema'' = Some uri \<longrightarrow>
      validator_for env reg (JObj kvs) dflt = validator_for env reg (JObj kvs) dflt')
   \<and> (map_of kvs ''$schema'' = None \<longrightarrow> validator_for env reg (JObj kvs) (Some d) = Inr (d, []))
   \<and> validator_for env reg (JBool b) (Some d) = Inr (d, [])"
  by (auto simp: validator_for_def contains_key_def has_key_def Let_def
           split: option.splits sum.splits bool.splits)

theorem validator_for_default_honoured_witness:
  "validator_for env0 sample_registry unknown_metaschema_schema (Some legacy_cls)
      = Inr (sample_cls, [metaschema_warning])
   \<and> validator_for env0 sample_registry (JObj [(''const'', JInt 1)]) (Some legacy_cls)
      = Inr (legacy_cls, [])
   \<and> validator_for env0 sample_registry (JBool True) (Some legacy_cls) = Inr (legacy_cls, [])"
proof -
  have a: "map_of [(''$schema'', JStr ''http://example.com/unknown''), (''const'', JInt 1)] ''$schema''
             = Some (JStr ''http://example.com/unknown'')"
    by simp
  have b: "uri_get env0 (meta_schemas sample_registry) (JStr ''http://example.com/unknown'') = Inr None"
    by (simp add: uri_get_def env0_def uri_normalize0_def sample_registry_def)
  have c: "map_of [(''const'', JInt 1)] ''$schema'' = None"
    by simp
  show ?thesis
    using a b c
      validator_for_default_honoured [of "[(''$schema'', JStr ''http://example.com/unknown''), (''const'', JInt 1)]"
        "JStr ''http://example.com/unknown''" env0 sample_registry "Some legacy_cls" "Some legacy_cls" legacy_cls True]
      validator_for_default_honoured [of "[(''const'', JInt 1)]"
        "JStr ''http://example.com/unknown''" env0 sample_registry "Some legacy_cls" "Some legacy_cls" legacy_cls True]
    by (simp add: unknown_metaschema_schema_def sample_registry_def)
qed

lemma from_schema_latest_meta:
  "from_schema env0 sample_registry (JObj []) id_of_default = Inr latest_meta_resolver"
  by (simp add: from_schema_def id_of_default_def uri_set_def env0_def uri_normalize0_def
        store_schema_list_def sample_registry_def dict_update_def latest_meta_resolver_def)

lemma from_schema_unknown:
  "from_schema env0 sample_registry unknown_metaschema_schema id_of_default = Inr unknown_resolver"
  by (simp add: from_schema_def id_of_default_def uri_set_def env0_def uri_normalize0_def
        store_schema_list_def sample_registry_def dict_update_def unknown_resolver_def
        unknown_metaschema_schema_def)

text \<open>
  Claim C7. For a schema whose \<^verbatim>\<open>$schema\<close> entry is not a registered meta-schema URI,
  selecting the validator does not fail: \<^verbatim>\<open>validator_for\<close> returns the latest version and
  emits one warning. The module's \<^verbatim>\<open>validate\<close> then proceeds with the latest version,
  with that warning emitted: it checks the schema under the latest version's meta-schema
  (raising the first diagnostic as a \<^verbatim>\<open>SchemaError\<close>), and then runs \<^verbatim>\<open>iter_errors\<close> of an
  instance of the latest version bound to the schema, raising the best match of its
  diagnostics and nothing when there are none. This is what it does when it is given the
  latest version as its class.
\<close>

theorem unregistered_metaschema_falls_back:
  assumes "map_of kvs ''$schema'' = Some uri"
    and "uri_get env (meta_schemas reg) uri = Inr None"
  shows "validator_for env reg (JObj kvs) None = Inr (LATEST_VERSION reg, [metaschema_warning])
     \<and> validate n env reg inst (JObj kvs) None
        = (fst (validate n env reg inst (JObj kvs) (Some (LATEST_VERSION reg))), [metaschema_warning])
     \<and> validate n env reg inst (JObj kvs) None
        = ((case from_schema env reg (META_SCHEMA (LATEST_VERSION reg)) (ID_OF (LATEST_VERSION reg)) of
              Inl x \<Rightarrow> Inl x
            | Inr rm \<Rightarrow>
               (case fst (iter_errors n env
                           \<lparr>cls = LATEST_VERSION reg, schema = META_SCHEMA (LATEST_VERSION reg),
                            format_checker = None\<rparr> (JObj kvs) JNull rm) of
                  (e # es, ex) \<Rightarrow> Inl (SchemaError e)
                | ([], Some x) \<Rightarrow> Inl x
                | ([], None) \<Rightarrow>
                   (case from_schema env reg (JObj kvs) (ID_OF (LATEST_VERSION reg)) of
                      Inl x \<Rightarrow> Inl x
                    | Inr r \<Rightarrow>
                       (case fst (iter_errors n env
                                   \<lparr>cls = LATEST_VERSION reg, schema = JObj kvs,
                                    format_checker = None\<rparr> inst JNull r) of
                          (errors, Some x) \<Rightarrow> Inl x
                        | (errors, None) \<Rightarrow>
                            if errors = [] then Inr ()
                            else Inl (ValidationError (most_relevant env errors)))))),
           [metaschema_warning])"
  using assms
  by (auto simp: validator_for_def validate_def check_schema_def new_validator_def
        next_or_none_def best_match_def contains_key_def has_key_def Let_def
      split: option.splits sum.splits bool.splits prod.splits list.splits)

theorem unregistered_metaschema_falls_back_witness:
  "validator_for env0 sample_registry unknown_metaschema_schema None
      = Inr (sample_cls, [metaschema_warning])
   \<and> validate 5 env0 sample_registry (JInt 1) unknown_metaschema_schema None
      = (Inr (), [metaschema_warning])
   \<and> validate 5 env0 sample_registry (JInt 2) unknown_metaschema_schema None
      = (Inl (ValidationError unknown_error), [metaschema_warning])"
proof -
  have a: "map_of [(''$schema'', JStr ''http://example.com/unknown''), (''const'', JInt 1)] ''$schema''
             = Some (JStr ''http://example.com/unknown'')"
    by simp
  have b: "uri_get env0 (meta_schemas sample_registry) (JStr ''http://example.com/unknown'') = Inr None"
    by (simp add: uri_get_def env0_def uri_normalize0_def sample_registry_def)
  have l: "LATEST_VERSION sample_registry = sample_cls"
    by (simp add: sample_registry_def)
  have m: "META_SCHEMA sample_cls = JObj []" "ID_OF sample_cls = id_of_default"
    by (simp_all add: sample_cls_def)
  have u: "JObj [(''$schema'', JStr ''http://example.com/unknown''), (''const'', JInt 1)]
             = unknown_metaschema_schema"
    by (simp add: unknown_metaschema_schema_def)
  have c: "fst (iter_errors 5 env0 \<lparr>cls = sample_cls, schema = JObj [], format_checker = None\<rparr>
                  unknown_metaschema_schema JNull latest_meta_resolver) = ([], None)"
    by code_simp
  have d1: "fst (iter_errors 5 env0
                  \<lparr>cls = sample_cls, schema = unknown_metaschema_schema, format_checker = None\<rparr>
                  (JInt 1) JNull unknown_resolver) = ([], None)"
    by code_simp
  have d2: "fst (iter_errors 5 env0
                  \<lparr>cls = sample_cls, schema = unknown_metaschema_schema, format_checker = None\<rparr>
                  (JInt 2) JNull unknown_resolver) = ([unknown_error], None)"
    by code_simp
  have r: "most_relevant env0 [unknown_error] = unknown_error"
    by (simp add: env0_def)
  note t1 = unregistered_metaschema_falls_back [OF a b, of 5 "JInt 1"]
  note t2 = unregistered_metaschema_falls_back [OF a b, of 5 "JInt 2"]
  have v: "validator_for env0 sample_registry unknown_metaschema_schema None
      = Inr (sample_cls, [metaschema_warning])"
    using conjunct1 [OF t1] by (simp add: l u)
  have p1: "validate 5 env0 sample_registry (JInt 1) unknown_metaschema_schema None
      = (Inr (), [metaschema_warning])"
    using conjunct2 [OF conjunct2 [OF t1]]
    by (simp add: l m u c d1 from_schema_latest_meta from_schema_unknown)
  have p2: "validate 5 env0 sample_registry (JInt 2) unknown_metaschema_schema None
      = (Inl (ValidationError unknown_error), [metaschema_warning])"
    using conjunct2 [OF conjunct2 [OF t2]]
    by (simp add: l m u c d2 r from_schema_latest_meta from_schema_unknown)
  show ?thesis
    using v p1 p2 by simp
qed

section \<open>The scope stack is balanced\<close>

lemma depth_push_scope: "push_scope env r scope = Inr r' \<Longrightarrow> depth r' = Suc (depth r)"
  by (auto simp: push_scope_def depth_def split: sum.splits)

lemma depth_pop_scope: "pop_scope r = Inr r' \<Longrightarrow> Suc (depth r') = depth r"
  by (auto simp: pop_scope_def depth_def split: if_splits)

lemma pop_scope_fails: "pop_scope r = Inl x \<Longrightarrow> depth r = 0"
  by (auto simp: pop_scope_def depth_def split: if_splits)

lemma depth_resolve_remote: "depth (snd (resolve_remote env r uri)) = depth r"
  by (auto simp: resolve_remote_def depth_def split: sum.splits option.splits)

lemma depth_resolve_from_url: "depth (snd (resolve_from_url env r url)) = depth r"
proof -
  obtain u f where uf: "urldefrag env url = (u, f)" by (cases "urldefrag env url")
  obtain res r' where rr: "resolve_remote env r u = (res, r')" by (cases "resolve_remote env r u")
  have "depth r' = depth r" using depth_resolve_remote [of env r u] rr by simp
  then show ?thesis
    by (auto simp: resolve_from_url_def uf rr split: sum.splits option.splits)
qed

lemma depth_remote_cache: "depth (snd (remote_cache env r url)) = depth r"
proof -
  obtain res r' where rr: "resolve_from_url env r url = (res, r')"
    by (cases "resolve_from_url env r url")
  have d: "depth r' = depth r" using depth_resolve_from_url [of env r url] rr by simp
  show ?thesis
    using d by (auto simp: remote_cache_def rr depth_def split: sum.splits option.splits)
qed

lemma depth_resolve: "depth (snd (resolve env r ref)) = depth r"
proof -
  have "\<And>url. depth (snd (remote_cache env r url)) = depth r" by (rule depth_remote_cache)
  then show ?thesis
    by (auto simp: resolve_def split: sum.splits option.splits prod.splits if_splits)
       (metis snd_conv)+
qed


lemma depth_resolving:
  assumes "balanced_block body"
  shows "depth (snd (resolving env ref body r)) = depth r"
proof (cases "resolve env r ref")
  case (Pair res r1)
  have d1: "depth r1 = depth r" using depth_resolve [of env r ref] Pair by simp
  show ?thesis
  proof (cases res)
    case (Inl x)
    then show ?thesis using Pair d1 by (simp add: resolving_def)
  next
    case (Inr ud)
    obtain url resolved where ud: "ud = (url, resolved)" by (cases ud)
    show ?thesis
    proof (cases "push_scope env r1 (JStr url)")
      case (Inl x)
      then show ?thesis using Pair Inr ud d1 by (simp add: resolving_def)
    next
      case r2: (Inr r2)
      obtain errs ex r3 where b: "body resolved r2 = ((errs, ex), r3)"
        by (metis prod.exhaust)
      have d3: "depth r3 = Suc (depth r)"
        using assms b depth_push_scope [OF r2] d1 unfolding balanced_block_def
        by (metis snd_conv)
      show ?thesis
      proof (cases "pop_scope r3")
        case (Inl x)
        then show ?thesis using pop_scope_fails [OF Inl] d3 by simp
      next
        case r4: (Inr r4)
        then show ?thesis
          using Pair Inr ud r2 b d3 depth_pop_scope [OF r4] by (simp add: resolving_def)
      qed
    qed
  qed
qed

lemma depth_run_validators:
  assumes "balanced_engine eng" and "balanced_table table"
  shows "depth (snd (run_validators eng table inst sch pairs r)) = depth r"
proof (induction pairs arbitrary: r)
  case Nil
  show ?case by simp
next
  case (Cons kv rest)
  show ?case
  proof (cases "map_of table (fst kv)")
    case None
    then show ?thesis using Cons.IH by simp
  next
    case (Some f)
    obtain errs ex r1 where f: "f eng (snd kv) inst sch r = ((errs, ex), r1)"
      by (metis prod.exhaust)
    have d1: "depth r1 = depth r"
      using assms Some f unfolding balanced_table_def balanced_callable_def
      by (metis snd_conv)
    show ?thesis
    proof (cases ex)
      case None
      obtain later ex2 r2 where rest: "run_validators eng table inst sch rest r1 = ((later, ex2), r2)"
        by (metis prod.exhaust)
      have "depth r2 = depth r1" using Cons.IH [of r1] rest by simp
      then show ?thesis using Some f None rest d1 by simp
    next
      case (Some x)
      then show ?thesis using \<open>map_of table (fst kv) = Some f\<close> f d1 by simp
    qed
  qed
qed

lemma depth_try_block:
  assumes "balanced_engine eng" and "balanced_table (VALIDATORS (cls self))"
  shows "depth (snd (try_block eng self inst sch r)) = depth r"
  using depth_run_validators [OF assms]
  by (simp add: try_block_def split: sum.splits)

lemma depth_iter_errors_body:
  assumes "balanced_engine eng" and "balanced_table (VALIDATORS (cls self))"
  shows "depth (snd (iter_errors_body eng env self inst sch0 r)) = depth r"
proof -
  define sch where "sch = (if sch0 = JNull then schema self else sch0)"
  have guarded: "depth (snd (case push_scope env r scope of
                     Inl x \<Rightarrow> (([], Some x), r)
                   | Inr r1 \<Rightarrow>
                       (case try_block eng self inst sch r1 of
                          ((errors, ex), r2) \<Rightarrow>
                            (case pop_scope r2 of
                               Inl x \<Rightarrow> ((errors, Some x), r2)
                             | Inr r3 \<Rightarrow> ((errors, ex), r3))))) = depth r" for scope
  proof (cases "push_scope env r scope")
    case (Inl x)
    then show ?thesis by simp
  next
    case r1: (Inr r1)
    obtain errs ex r2 where t: "try_block eng self inst sch r1 = ((errs, ex), r2)"
      by (metis prod.exhaust)
    have d2: "depth r2 = Suc (depth r)"
      using depth_try_block [OF assms, of inst sch r1] t depth_push_scope [OF r1] by simp
    show ?thesis
    proof (cases "pop_scope r2")
      case (Inl x)
      then show ?thesis using pop_scope_fails [OF Inl] d2 by simp
    next
      case r3: (Inr r3)
      then show ?thesis using r1 t d2 depth_pop_scope [OF r3] by simp
    qed
  qed
  show ?thesis
    unfolding iter_errors_body_def Let_def sch_def [symmetric]
    using guarded depth_try_block [OF assms, of inst sch r]
    by (simp split: sum.splits)
qed

lemma balanced_iter_errors:
  assumes "balanced_table (VALIDATORS (cls self))"
  shows "balanced_engine (iter_errors n env self)"
proof (induction n)
  case 0
  have "balanced_engine recursion_limit_reached"
    by (simp add: balanced_engine_def recursion_limit_reached_def)
  then show ?case
    using depth_iter_errors_body [OF _ assms] by (simp add: balanced_engine_def)
next
  case (Suc n)
  then show ?case
    using depth_iter_errors_body [OF _ assms] by (simp add: balanced_engine_def)
qed

lemma balanced_descend:
  "balanced_engine eng \<Longrightarrow> depth (snd (descend eng inst sch p sp r)) = depth r"
  by (auto simp: descend_def balanced_engine_def split: prod.splits) (metis snd_conv)

lemma balanced_ref_callable: "balanced_callable (ref_callable env)"
  unfolding balanced_callable_def ref_callable_def
  by (intro allI impI depth_resolving) (simp add: balanced_block_def balanced_descend)

lemma balanced_const_callable: "balanced_callable (const_callable env)"
  by (simp add: balanced_callable_def const_callable_def)

lemma balanced_sample_cls: "balanced_table (VALIDATORS sample_cls)"
  by (auto simp: balanced_table_def sample_cls_def balanced_ref_callable balanced_const_callable
           split: if_splits)

text \<open>
  Claim C2. The depth of the resolver's scope stack after a complete \<^verbatim>\<open>iter_errors\<close> call
  equals its depth before the call, and so it does after the context manager
  \<^verbatim>\<open>resolving\<close>, whether the call ends normally or with an exception: the push of an
  \<^verbatim>\<open>$id\<close> scope or of a resolved reference is undone by the pop of the \<^verbatim>\<open>finally\<close> clause.
  The callables of the class and the block under \<^verbatim>\<open>resolving\<close> are taken to be balanced
  themselves.
\<close>

theorem scope_stack_balanced:
  assumes "balanced_table (VALIDATORS (cls self))" and "balanced_block body"
  shows "depth (snd (iter_errors n env self inst sch r)) = depth r
     \<and> depth (snd (resolving env ref body r)) = depth r"
  using balanced_iter_errors [OF assms(1), of n env] depth_resolving [OF assms(2)]
  by (simp add: balanced_engine_def)

theorem scope_stack_balanced_witness:
  "depth (snd (iter_errors 5 env0 sample_validator (JInt 2) JNull sample_resolver)) = 1
   \<and> depth (snd (iter_errors 0 env0 sample_validator (JInt 2) JNull sample_resolver)) = 1
   \<and> snd (fst (iter_errors 0 env0 sample_validator (JInt 2) JNull sample_resolver))
       = Some RecursionError
   \<and> depth (snd (resolving env0 (JStr ''#/definitions/one'') raising_block sample_resolver)) = 1
   \<and> snd (fst (resolving env0 (JStr ''#/definitions/one'') raising_block sample_resolver))
       = Some (OtherError ''raised in the block'')"
proof -
  have t: "balanced_table (VALIDATORS (cls sample_validator))"
    using balanced_sample_cls by (simp add: sample_validator_def)
  have b: "balanced_block raising_block"
    by (simp add: balanced_block_def raising_block_def)
  have d: "depth sample_resolver = 1"
    by (simp add: depth_def sample_resolver_def)
  have x: "snd (fst (iter_errors 0 env0 sample_validator (JInt 2) JNull sample_resolver))
       = Some RecursionError"
    by code_simp
  have y: "snd (fst (resolving env0 (JStr ''#/definitions/one'') raising_block sample_resolver))
       = Some (OtherError ''raised in the block'')"
    by code_simp
  show ?thesis
    using d x y
      scope_stack_balanced [OF t b, of 5 env0 "JInt 2" JNull sample_resolver
        "JStr ''#/definitions/one''"]
      scope_stack_balanced [OF t b, of 0 env0 "JInt 2" JNull sample_resolver
        "JStr ''#/definitions/one''"]
    by simp
qed

section \<open>Decoration of the schema path\<close>

lemma schema_path_stamp:
  "schema_path (stamp k v inst sch e)
     = (if k = ''if'' \<or> k = ''$ref'' then schema_path e else PKey k # schema_path e)"
  by (simp add: stamp_def error_set_def appendleft_schema_path_def Let_def)

lemma run_validators_stamped:
  "e' \<in> set (fst (fst (run_validators eng table inst sch pairs r))) \<Longrightarrow>
   \<exists>k v f e r0. (k, v) \<in> set pairs \<and> map_of table k = Some f
      \<and> e \<in> set (fst (fst (f eng v inst sch r0))) \<and> e' = stamp k v inst sch e"
proof (induction pairs arbitrary: r)
  case Nil
  then show ?case by simp
next
  case (Cons kv rest)
  show ?case
  proof (cases "map_of table (fst kv)")
    case None
    then have "e' \<in> set (fst (fst (run_validators eng table inst sch rest r)))"
      using Cons.prems by simp
    from Cons.IH [OF this] obtain k v f' e r0 where
        h: "(k, v) \<in> set rest" "map_of table k = Some f'"
           "e \<in> set (fst (fst (f' eng v inst sch r0)))" "e' = stamp k v inst sch e"
        by blast
      show ?thesis
        by (rule exI [of _ k], rule exI [of _ v], rule exI [of _ f'], rule exI [of _ e],
            rule exI [of _ r0]) (simp add: h)
  next
    case (Some f)
    obtain errs ex r1 where f: "f eng (snd kv) inst sch r = ((errs, ex), r1)"
      by (metis prod.exhaust)
    obtain later ex2 r2 where rest: "run_validators eng table inst sch rest r1 = ((later, ex2), r2)"
      by (metis prod.exhaust)
    have "e' \<in> stamp (fst kv) (snd kv) inst sch ` set errs \<or> e' \<in> set later"
      using Cons.prems Some f rest by (cases ex) auto
    then show ?thesis
    proof
      assume "e' \<in> stamp (fst kv) (snd kv) inst sch ` set errs"
      then obtain e where e: "e \<in> set errs" "e' = stamp (fst kv) (snd kv) inst sch e" by auto
      have "(fst kv, snd kv) \<in> set (kv # rest)" by simp
      moreover have "e \<in> set (fst (fst (f eng (snd kv) inst sch r)))" using e f by simp
      ultimately show ?thesis using Some e(2) by blast
    next
      assume "e' \<in> set later"
      then have "e' \<in> set (fst (fst (run_validators eng table inst sch rest r1)))"
        using rest by simp
      from Cons.IH [OF this] obtain k v f' e r0 where
        h: "(k, v) \<in> set rest" "map_of table k = Some f'"
           "e \<in> set (fst (fst (f' eng v inst sch r0)))" "e' = stamp k v inst sch e"
        by blast
      show ?thesis
        by (rule exI [of _ k], rule exI [of _ v], rule exI [of _ f'], rule exI [of _ e],
            rule exI [of _ r0]) (simp add: h)
    qed
  qed
qed

lemma try_block_stamped:
  "e' \<in> set (fst (fst (try_block eng self inst sch r))) \<Longrightarrow>
   \<exists>pairs k v f e r0. applicable_validators (cls self) sch = Inr pairs \<and> (k, v) \<in> set pairs
      \<and> map_of (VALIDATORS (cls self)) k = Some f
      \<and> e \<in> set (fst (fst (f eng v inst sch r0))) \<and> e' = stamp k v inst sch e"
proof (cases "applicable_validators (cls self) sch")
  case (Inl x)
  assume "e' \<in> set (fst (fst (try_block eng self inst sch r)))"
  then show ?thesis using Inl by (simp add: try_block_def)
next
  case (Inr pairs)
  assume "e' \<in> set (fst (fst (try_block eng self inst sch r)))"
  then have "e' \<in> set (fst (fst (run_validators eng (VALIDATORS (cls self)) inst sch pairs r)))"
    using Inr by (simp add: try_block_def)
  from run_validators_stamped [OF this] show ?thesis using Inr by blast
qed

lemma iter_errors_body_stamped:
  assumes "e' \<in> set (fst (fst (iter_errors_body eng env self inst sch0 r)))"
    and "sch = (if sch0 = JNull then schema self else sch0)"
    and "sch \<noteq> JBool False"
  shows "\<exists>pairs k v f e r0. applicable_validators (cls self) sch = Inr pairs \<and> (k, v) \<in> set pairs
      \<and> map_of (VALIDATORS (cls self)) k = Some f
      \<and> e \<in> set (fst (fst (f eng v inst sch r0))) \<and> e' = stamp k v inst sch e"
proof -
  have "\<exists>r1. e' \<in> set (fst (fst (try_block eng self inst sch r1)))"
    using assms
    by (auto simp: iter_errors_body_def Let_def split: if_splits sum.splits prod.splits)
       (metis fst_conv)+
  then show ?thesis using try_block_stamped by blast
qed


text \<open>
  Claim C8. Every diagnostic that \<^verbatim>\<open>iter_errors\<close> yields for a schema other than \<^verbatim>\<open>False\<close>
  is a diagnostic \<open>e\<close> of the callable of an applicable keyword \<open>k\<close>, stamped; its schema
  path is that of \<open>e\<close> with \<open>k\<close> put in front, except for the keywords \<^verbatim>\<open>if\<close> and
  \<^verbatim>\<open>$ref\<close>, for which it is the path of \<open>e\<close> unchanged.
\<close>

theorem schema_path_decoration:
  assumes "e' \<in> set (fst (fst (iter_errors n env self inst sch0 r)))"
    and "sch = (if sch0 = JNull then schema self else sch0)"
    and "sch \<noteq> JBool False"
  shows "\<exists>pairs k v f eng e r0.
      applicable_validators (cls self) sch = Inr pairs \<and> (k, v) \<in> set pairs
      \<and> map_of (VALIDATORS (cls self)) k = Some f
      \<and> e \<in> set (fst (fst (f eng v inst sch r0)))
      \<and> e' = stamp k v inst sch e
      \<and> schema_path e' =
          (if k = ''if'' \<or> k = ''$ref'' then schema_path e else PKey k # schema_path e)"
proof -
  obtain eng where eng: "iter_errors n env self = iter_errors_body eng env self"
    by (cases n) auto
  have "e' \<in> set (fst (fst (iter_errors_body eng env self inst sch0 r)))"
    using assms(1) eng by simp
  from iter_errors_body_stamped [OF this assms(2) assms(3)]
  obtain pairs k v f e r0 where
    h: "applicable_validators (cls self) sch = Inr pairs" "(k, v) \<in> set pairs"
       "map_of (VALIDATORS (cls self)) k = Some f"
       "e \<in> set (fst (fst (f eng v inst sch r0)))" "e' = stamp k v inst sch e"
    by blast
  show ?thesis
    by (rule exI [of _ pairs], rule exI [of _ k], rule exI [of _ v], rule exI [of _ f],
        rule exI [of _ eng], rule exI [of _ e], rule exI [of _ r0]) (simp add: h schema_path_stamp)
qed

theorem schema_path_decoration_witness:
  "\<exists>pairs k v f eng e r0.
      applicable_validators (cls sample_validator) sample_schema = Inr pairs \<and> (k, v) \<in> set pairs
      \<and> map_of (VALIDATORS (cls sample_validator)) k = Some f
      \<and> e \<in> set (fst (fst (f eng v (JInt 2) sample_schema r0)))
      \<and> sample_error = stamp k v (JInt 2) sample_schema e
      \<and> schema_path sample_error =
          (if k = ''if'' \<or> k = ''$ref'' then schema_path e else PKey k # schema_path e)"
proof -
  have a: "sample_error
            \<in> set (fst (fst (iter_errors 5 env0 sample_validator (JInt 2) JNull sample_resolver)))"
    by code_simp
  have b: "sample_schema = (if JNull = JNull then schema sample_validator else JNull)"
    by (simp add: sample_validator_def)
  have c: "sample_schema \<noteq> JBool False"
    by (simp add: sample_schema_def)
  show ?thesis
    using schema_path_decoration [OF a b c] .
qed

section \<open>The strict entry points\<close>

lemma new_validator_strict:
  "new_validator env0 empty_registry strict_cls (JObj []) = Inr (strict_validator, empty_schema_resolver)"
  by (simp add: new_validator_def from_schema_def strict_cls_def id_of_default_def uri_set_def
        env0_def uri_normalize0_def store_schema_list_def empty_registry_def dict_update_def
        empty_schema_resolver_def strict_validator_def)

lemma new_validator_ranked:
  "new_validator env0 empty_registry ranked_cls ranked_schema = Inr (ranked_validator, ranked_resolver)"
  by (simp add: new_validator_def from_schema_def ranked_cls_def id_of_default_def uri_set_def
        env0_def uri_normalize0_def store_schema_list_def empty_registry_def dict_update_def
        ranked_resolver_def ranked_schema_def ranked_validator_def)

text \<open>
  Claim C3, as stated, fails for the module's \<^verbatim>\<open>validate\<close>. For the strict class and the
  schema \<^verbatim>\<open>{}\<close>, \<^verbatim>\<open>iter_errors\<close> yields nothing for the instance, yet \<^verbatim>\<open>validate\<close> raises
  a \<^verbatim>\<open>SchemaError\<close>: the schema is checked against the meta-schema first. For the ranked
  class \<^verbatim>\<open>iter_errors\<close> yields the diagnostic \<open>first\<close> and then \<open>second\<close>, and \<^verbatim>\<open>validate\<close>
  raises \<open>second\<close>: it raises the best match, not the first.
\<close>

theorem module_validate_counterexample:
  "new_validator env0 empty_registry strict_cls (JObj []) = Inr (strict_validator, empty_schema_resolver)
   \<and> fst (iter_errors 5 env0 strict_validator (JInt 3) JNull empty_schema_resolver) = ([], None)
   \<and> raised_kind (fst (validate 5 env0 empty_registry (JInt 3) (JObj []) (Some strict_cls)))
       = ''SchemaError''
   \<and> new_validator env0 empty_registry ranked_cls ranked_schema = Inr (ranked_validator, ranked_resolver)
   \<and> map message (fst (fst (iter_errors 5 env0 ranked_validator (JInt 3) JNull ranked_resolver)))
       = [''first'', ''second'']
   \<and> raised_kind (fst (validate 5 env0 empty_registry (JInt 3) ranked_schema (Some ranked_cls)))
       = ''ValidationError''
   \<and> raised_message (fst (validate 5 env0 empty_registry (JInt 3) ranked_schema (Some ranked_cls)))
       = ''second''"
proof -
  have a: "fst (iter_errors 5 env0 strict_validator (JInt 3) JNull empty_schema_resolver) = ([], None)"
    by code_simp
  have b: "raised_kind (fst (validate 5 env0 empty_registry (JInt 3) (JObj []) (Some strict_cls)))
       = ''SchemaError''"
    by code_simp
  have c: "map message (fst (fst (iter_errors 5 env0 ranked_validator (JInt 3) JNull ranked_resolver)))
       = [''first'', ''second'']"
    by code_simp
  have d: "raised_kind (fst (validate 5 env0 empty_registry (JInt 3) ranked_schema (Some ranked_cls)))
       = ''ValidationError''"
    by code_simp
  have e: "raised_message (fst (validate 5 env0 empty_registry (JInt 3) ranked_schema (Some ranked_cls)))
       = ''second''"
    by code_simp
  show ?thesis
    using a b c d e new_validator_strict new_validator_ranked by simp
qed

text \<open>
  Claim C3, amended. The method \<^verbatim>\<open>validate\<close> raises the first diagnostic of
  \<^verbatim>\<open>iter_errors\<close>, raises what \<^verbatim>\<open>iter_errors\<close> raises before its first diagnostic, and does
  nothing when \<^verbatim>\<open>iter_errors\<close> ends without a diagnostic. The module's \<^verbatim>\<open>validate\<close> takes the
  class \<^verbatim>\<open>validator_for\<close> selects when it is given none, raises what \<^verbatim>\<open>check_schema\<close>
  raises for the schema, and otherwise raises the best match of all the diagnostics of
  \<^verbatim>\<open>iter_errors\<close> (or the exception that ended them), doing nothing when there are none.
\<close>

theorem validate_entry_points:
  "(fst (iter_errors n env self inst sch0 r) = (e # es, ex) \<longrightarrow>
      validate_method n env self inst sch0 r = Inl (ValidationError e))
   \<and> (fst (iter_errors n env self inst sch0 r) = ([], Some x) \<longrightarrow>
      validate_method n env self inst sch0 r = Inl x)
   \<and> (fst (iter_errors n env self inst sch0 r) = ([], None) \<longrightarrow>
      validate_method n env self inst sch0 r = Inr ())
   \<and> (validator_for env reg sch None = Inr (c, w) \<longrightarrow>
      validate n env reg inst sch None = (fst (validate n env reg inst sch (Some c)), w))
   \<and> (check_schema n env reg c sch = Inl x \<longrightarrow>
      validate n env reg inst sch (Some c) = (Inl x, []))
   \<and> (check_schema n env reg c sch = Inr () \<and> new_validator env reg c sch = Inr (v, r')
       \<and> fst (iter_errors n env v inst JNull r') = (errors, ex') \<longrightarrow>
      validate n env reg inst sch (Some c) =
        (case ex' of
           Some x' \<Rightarrow> Inl x'
         | None \<Rightarrow> if errors = [] then Inr ()
                   else Inl (ValidationError (most_relevant env errors)), []))"
  by (auto simp: validate_method_def validate_def next_or_none_def best_match_def
           split: option.splits sum.splits prod.splits list.splits)

theorem validate_entry_points_witness:
  "validate_method 5 env0 sample_validator (JInt 2) JNull sample_resolver
      = Inl (ValidationError sample_error)
   \<and> validate_method 5 env0 sample_validator (JInt 1) JNull sample_resolver = Inr ()
   \<and> validate_method 0 env0 sample_validator (JInt 1) JNull sample_resolver = Inl RecursionError
   \<and> raised_kind (fst (validate 5 env0 empty_registry (JInt 3) (JObj []) (Some strict_cls)))
       = ''SchemaError''
   \<and> validate 5 env0 empty_registry (JInt 3) ranked_schema (Some ranked_cls)
       = (Inl (ValidationError (most_relevant env0
            (fst (fst (iter_errors 5 env0 ranked_validator (JInt 3) JNull ranked_resolver))))), [])"
proof -
  have a: "fst (iter_errors 5 env0 sample_validator (JInt 2) JNull sample_resolver)
             = (sample_error # [], None)"
    by code_simp
  have b: "fst (iter_errors 5 env0 sample_validator (JInt 1) JNull sample_resolver) = ([], None)"
    by code_simp
  have c: "fst (iter_errors 0 env0 sample_validator (JInt 1) JNull sample_resolver)
             = ([], Some RecursionError)"
    by code_simp
  obtain x where d: "check_schema 5 env0 empty_registry strict_cls (JObj []) = Inl x"
    "raised_kind (Inl x) = ''SchemaError''"
  proof -
    have "raised_kind (check_schema 5 env0 empty_registry strict_cls (JObj [])) = ''SchemaError''"
      by code_simp
    then show ?thesis
      using that by (cases "check_schema 5 env0 empty_registry strict_cls (JObj [])")
        (auto simp: raised_kind_def)
  qed
  have e: "check_schema 5 env0 empty_registry ranked_cls ranked_schema = Inr ()"
    by code_simp
  obtain errors where f:
    "fst (iter_errors 5 env0 ranked_validator (JInt 3) JNull ranked_resolver) = (errors, None)"
    "errors \<noteq> []"
  proof -
    have "snd (fst (iter_errors 5 env0 ranked_validator (JInt 3) JNull ranked_resolver)) = None"
      "fst (fst (iter_errors 5 env0 ranked_validator (JInt 3) JNull ranked_resolver)) \<noteq> []"
      by code_simp+
    then show ?thesis using that by (metis prod.collapse)
  qed
  show ?thesis
    using
      validate_entry_points [where n = 5 and env = env0 and self = sample_validator
        and inst = "JInt 2" and ?sch0.0 = JNull and r = sample_resolver and e = sample_error
        and es = "[]" and ex = None]
      validate_entry_points [where n = 5 and env = env0 and self = sample_validator
        and inst = "JInt 1" and ?sch0.0 = JNull and r = sample_resolver]
      validate_entry_points [where n = 0 and env = env0 and self = sample_validator
        and inst = "JInt 1" and ?sch0.0 = JNull and r = sample_resolver and x = RecursionError]
      validate_entry_points [where n = 5 and env = env0 and reg = empty_registry
        and c = strict_cls and sch = "JObj []" and x = x and inst = "JInt 3"]
      validate_entry_points [where n = 5 and env = env0 and reg = empty_registry
        and c = ranked_cls and sch = ranked_schema and inst = "JInt 3" and v = ranked_validator
        and r' = ranked_resolver and errors = errors and ex' = None]
      a b c d e f new_validator_ranked
    by simp
qed

section \<open>Local and remote resolution\<close>

lemma from_schema_embedded:
  "from_schema env0 empty_registry embedded_schema id_of_default = Inr embedded_resolver"
  by (simp add: from_schema_def id_of_default_def uri_set_def env0_def uri_normalize0_def
        store_schema_list_def empty_registry_def dict_update_def embedded_resolver_def
        embedded_schema_def)

text \<open>
  Claim C4. \<^verbatim>\<open>resolve\<close> joins the reference against the current scope and tries local
  resolution first, but it takes the local result only when it is truthy
  (\<^verbatim>\<open>if local_resolve:\<close>). When the local search matches and the document it resolves to
  is falsy (the empty schema \<^verbatim>\<open>{}\<close>, \<^verbatim>\<open>false\<close>, an empty list or string, zero or null),
  \<^verbatim>\<open>resolve\<close> goes on to remote resolution all the same: its result is that of the
  remote cache. For the embedded subschema the store has no document and the fetch is
  attempted, where the same reference without the fragment resolves locally.
\<close>

theorem resolve_remote_despite_local_match:
  assumes "resolution_scope r = Inr scope"
    and "urljoin env scope ref = Inr (JStr joined)"
    and "resolve_local env r (rstrip CHR ''/'' joined) (referrer r) = Inr (Some d)"
    and "\<not> truthy d"
  shows "resolve env r ref =
           (case remote_cache env r (rstrip CHR ''/'' joined) of
              (Inl x, r') \<Rightarrow> (Inl x, r')
            | (Inr d', r') \<Rightarrow> (Inr (rstrip CHR ''/'' joined, d'), r'))"
  using assms by (simp add: resolve_def rstrip_slash_def)

theorem resolve_remote_despite_local_match_witness:
  "from_schema env0 empty_registry embedded_schema id_of_default = Inr embedded_resolver
   \<and> resolve_local env0 embedded_resolver ''http://example.com/s#/d'' embedded_schema
      = Inr (Some (JObj []))
   \<and> fst (resolve env0 embedded_resolver (JStr ''http://example.com/s#/d''))
      = Inl (RefResolutionErrorFrom (OtherError ''URLError''))
   \<and> fst (resolve env0 embedded_resolver (JStr ''http://example.com/s''))
      = Inr (''http://example.com/s'', JObj [(''$id'', JStr ''http://example.com/s''), (''d'', JObj [])])"
proof -
  have a: "resolution_scope embedded_resolver = Inr (JStr [])"
    by (simp add: resolution_scope_def embedded_resolver_def)
  have b: "urljoin env0 (JStr []) (JStr ''http://example.com/s#/d'')
             = Inr (JStr ''http://example.com/s#/d'')"
    by (simp add: env0_def urljoin0_def)
  have s: "rstrip CHR ''/'' ''http://example.com/s#/d'' = ''http://example.com/s#/d''"
    by (simp add: rstrip_def)
  have c: "resolve_local env0 embedded_resolver (rstrip CHR ''/'' ''http://example.com/s#/d'')
             (referrer embedded_resolver) = Inr (Some (JObj []))"
    by code_simp
  have d: "\<not> truthy (JObj [])" by simp
  have e: "fst (remote_cache env0 embedded_resolver ''http://example.com/s#/d'')
             = Inl (RefResolutionErrorFrom (OtherError ''URLError''))"
    by code_simp
  have f: "fst (resolve env0 embedded_resolver (JStr ''http://example.com/s''))
      = Inr (''http://example.com/s'', JObj [(''$id'', JStr ''http://example.com/s''), (''d'', JObj [])])"
    by code_simp
  have r: "referrer embedded_resolver = embedded_schema"
    by (simp add: embedded_resolver_def)
  show ?thesis
    using resolve_remote_despite_local_match [OF a b c d] c e f s r from_schema_embedded
    by (auto split: prod.splits sum.splits)
qed

section \<open>Fragments: anchors and JSON pointers\<close>

lemma replace2_skip: "x \<noteq> a \<Longrightarrow> replace2 a b new (x # s) = x # replace2 a b new s"
  by (cases s) auto

lemma replace2_tilde1_escape:
  "replace2 CHR ''~'' CHR ''1'' ''/'' (escape k)
     = concat (map (\<lambda>c. if c = CHR ''~'' then ''~0'' else [c]) k)"
  by (induction k) (auto simp: replace2_skip)

lemma replace2_tilde0_half:
  "replace2 CHR ''~'' CHR ''0'' ''~'' (concat (map (\<lambda>c. if c = CHR ''~'' then ''~0'' else [c]) k)) = k"
  by (induction k) (auto simp: replace2_skip)

lemma unescape_escape: "unescape (escape k) = k"
  by (simp add: unescape_def replace2_tilde1_escape replace2_tilde0_half)

lemma slash_notin_escape: "CHR ''/'' \<notin> set (escape k)"
  by (induction k) auto

lemma escape_empty: "escape k = [] \<longleftrightarrow> k = []"
  by (cases k) auto

lemma split_on_absent: "c \<notin> set s \<Longrightarrow> split_on c s = [s]"
  by (induction s) auto

lemma lstrip_slash_escape: "lstrip CHR ''/'' (CHR ''/'' # escape k) = escape k"
proof -
  have "dropWhile (\<lambda>x. x = CHR ''/'') (escape k) = escape k"
    using slash_notin_escape [of k] by (cases "escape k") auto
  then show ?thesis by (simp add: lstrip_def)
qed

lemma walk_raises:
  "walk env fragment d parts = Inl x \<Longrightarrow>
     x = RefResolutionError (''Unresolvable JSON pointer: '' @ py_repr env (JStr fragment))"
  by (induction parts arbitrary: d) (auto split: sum.splits)

lemma walk_append:
  "walk env fragment d (xs @ ys) =
     (case walk env fragment d xs of Inl x \<Rightarrow> Inl x | Inr d' \<Rightarrow> walk env fragment d' ys)"
  by (induction xs arbitrary: d) (auto split: sum.splits)

lemma find_anchor_found:
  "find_anchor d fragment = Some s \<Longrightarrow>
     (s \<in> set (finditem d ''$anchor'') \<and> anchored ''$anchor'' fragment s)
     \<or> (s \<in> set (finditem d ''$dynamicAnchor'') \<and> anchored ''$dynamicAnchor'' fragment s)"
  by (auto simp: find_anchor_def find_Some_iff split: option.splits)


lemma resolve_fragment_anchor:
  assumes "lstrip CHR ''/'' F \<noteq> []" and "find_anchor D (lstrip CHR ''/'' F) = Some s"
  shows "resolve_fragment env D F = Inr s"
  using assms by (simp add: resolve_fragment_def Let_def)

lemma resolve_fragment_pointer:
  assumes "lstrip CHR ''/'' F = [] \<or> find_anchor D (lstrip CHR ''/'' F) = None"
  shows "resolve_fragment env D F =
           walk env (lstrip CHR ''/'' F) D
             (if lstrip CHR ''/'' F = [] then []
              else split_on CHR ''/'' (unquote env (lstrip CHR ''/'' F)))"
  using assms by (auto simp: resolve_fragment_def Let_def)

lemma resolve_fragment_raises:
  assumes "resolve_fragment env D F = Inl x"
  shows "x = RefResolutionError
               (''Unresolvable JSON pointer: '' @ py_repr env (JStr (lstrip CHR ''/'' F)))"
  using assms walk_raises
  by (auto simp: resolve_fragment_def Let_def split: option.splits if_splits)

lemma walk_segment_fails:
  assumes "walk env fr d pre = Inr d'" and "getitem d' (coerce env d' (unescape part)) = Inl x"
  shows "walk env fr d (pre @ part # post)
           = Inl (RefResolutionError (''Unresolvable JSON pointer: '' @ py_repr env (JStr fr)))"
  using assms by (simp add: walk_append)

lemma walk_segment_steps:
  assumes "walk env fr d pre = Inr d'" and "getitem d' (coerce env d' (unescape part)) = Inr d''"
  shows "walk env fr d (pre @ part # post) = walk env fr d'' post"
  using assms by (simp add: walk_append)

lemma property_addressable:
  assumes "map_of kvs k = Some v" and "k \<noteq> []"
    and "find_anchor (JObj kvs) (escape k) = None"
    and "unquote env (escape k) = escape k"
  shows "resolve_fragment env (JObj kvs) (CHR ''/'' # escape k) = Inr v"
proof -
  have ne: "escape k \<noteq> []" using assms(2) by (simp add: escape_empty)
  have "resolve_fragment env (JObj kvs) (CHR ''/'' # escape k)
          = walk env (escape k) (JObj kvs) [escape k]"
    using ne assms(3,4) slash_notin_escape [of k]
    by (simp add: resolve_fragment_def Let_def lstrip_slash_escape split_on_absent)
  also have "\<dots> = Inr v"
    using assms(1) by (simp add: coerce_def unescape_escape)
  finally show ?thesis .
qed

lemma getitem_cases:
  "(map_of kvs k = None \<longrightarrow> getitem (JObj kvs) (Inl k) = Inl KeyError)
   \<and> (map_of kvs k = Some v \<longrightarrow> getitem (JObj kvs) (Inl k) = Inr v)
   \<and> (0 \<le> i \<and> i < int (length xs) \<longrightarrow> getitem (JArr xs) (Inr i) = Inr (xs ! nat i))
   \<and> (i < - int (length xs) \<or> int (length xs) \<le> i \<longrightarrow> getitem (JArr xs) (Inr i) = Inl IndexError)
   \<and> getitem (JArr xs) (Inl k) = Inl TypeError
   \<and> getitem JNull p = Inl TypeError
   \<and> getitem (JBool b) p = Inl TypeError
   \<and> getitem (JInt n) p = Inl TypeError"
  by (auto simp: seq_index_def)

lemma coerce_cases:
  "coerce env (JArr xs) part = (case py_int env part of None \<Rightarrow> Inl part | Some i \<Rightarrow> Inr i)
   \<and> coerce env (JStr s) part = (case py_int env part of None \<Rightarrow> Inl part | Some i \<Rightarrow> Inr i)
   \<and> coerce env (JObj kvs) part = Inl part"
  by (simp add: coerce_def)

lemma find_as_filter:
  "List.find P xs = (case filter P xs of [] \<Rightarrow> None | x # rest \<Rightarrow> Some x)"
  by (induction xs) auto

lemma finditem_values_concat:
  "finditem_values kvs key =
     concat (map (\<lambda>kv. case snd kv of JObj sub \<Rightarrow> finditem (JObj sub) key | _ \<Rightarrow> []) kvs)"
  by (induction kvs) auto

lemma find_anchor_cases:
  "find_anchor D fr =
     (case filter (anchored ''$anchor'' fr) (finditem D ''$anchor'') of
        s # rest \<Rightarrow> Some s
      | [] \<Rightarrow>
          (case filter (anchored ''$dynamicAnchor'' fr) (finditem D ''$dynamicAnchor'') of
             s # rest \<Rightarrow> Some s
           | [] \<Rightarrow> None))"
  by (simp add: find_anchor_def find_as_filter split: list.splits)

lemma anchor_first:
  assumes "lstrip CHR ''/'' F \<noteq> []"
    and "filter (anchored ''$anchor'' (lstrip CHR ''/'' F)) (finditem D ''$anchor'') = s # rest"
  shows "resolve_fragment env D F = Inr s"
  using assms by (simp add: resolve_fragment_def Let_def find_anchor_cases)

lemma dynamic_anchor_second:
  assumes "lstrip CHR ''/'' F \<noteq> []"
    and "filter (anchored ''$anchor'' (lstrip CHR ''/'' F)) (finditem D ''$anchor'') = []"
    and "filter (anchored ''$dynamicAnchor'' (lstrip CHR ''/'' F)) (finditem D ''$dynamicAnchor'')
           = s # rest"
  shows "resolve_fragment env D F = Inr s"
  using assms by (simp add: resolve_fragment_def Let_def find_anchor_cases)

lemma anchored_returned:
  assumes "lstrip CHR ''/'' F \<noteq> []"
    and "key = ''$anchor'' \<or> key = ''$dynamicAnchor''"
    and "s \<in> set (finditem D key)" and "anchored key (lstrip CHR ''/'' F) s"
  shows "\<exists>s'. resolve_fragment env D F = Inr s'
           \<and> ((s' \<in> set (finditem D ''$anchor'') \<and> anchored ''$anchor'' (lstrip CHR ''/'' F) s')
              \<or> (s' \<in> set (finditem D ''$dynamicAnchor'')
                 \<and> anchored ''$dynamicAnchor'' (lstrip CHR ''/'' F) s'))"
proof -
  have "s \<in> set (filter (anchored key (lstrip CHR ''/'' F)) (finditem D key))"
    using assms(3,4) by simp
  then have "filter (anchored ''$anchor'' (lstrip CHR ''/'' F)) (finditem D ''$anchor'') \<noteq> []
      \<or> filter (anchored ''$dynamicAnchor'' (lstrip CHR ''/'' F)) (finditem D ''$dynamicAnchor'') \<noteq> []"
    using assms(2) by (metis empty_iff list.set(1))
  then have "find_anchor D (lstrip CHR ''/'' F) \<noteq> None"
    by (cases "filter (anchored ''$anchor'' (lstrip CHR ''/'' F)) (finditem D ''$anchor'')";
        cases "filter (anchored ''$dynamicAnchor'' (lstrip CHR ''/'' F))
                 (finditem D ''$dynamicAnchor'')")
       (simp_all add: find_anchor_cases)
  then obtain s' where f: "find_anchor D (lstrip CHR ''/'' F) = Some s'"
    by auto
  then have "resolve_fragment env D F = Inr s'"
    using assms(1) by (simp add: resolve_fragment_def Let_def)
  then show ?thesis using find_anchor_found [OF f] by blast
qed

lemma no_anchor_pointer:
  assumes "lstrip CHR ''/'' F = []
     \<or> (filter (anchored ''$anchor'' (lstrip CHR ''/'' F)) (finditem D ''$anchor'') = []
        \<and> filter (anchored ''$dynamicAnchor'' (lstrip CHR ''/'' F)) (finditem D ''$dynamicAnchor'') = [])"
  shows "resolve_fragment env D F =
           walk env (lstrip CHR ''/'' F) D
             (if lstrip CHR ''/'' F = [] then []
              else split_on CHR ''/'' (unquote env (lstrip CHR ''/'' F)))"
  using assms by (auto simp: resolve_fragment_def Let_def find_anchor_cases)

lemma anchored_iff:
  "anchored keyword fr s \<longleftrightarrow> (\<exists>kvs. s = JObj kvs \<and> map_of kvs keyword = Some (JStr fr))"
  by (cases s) (auto simp: anchored_def)

lemma finditem_object:
  "finditem (JObj kvs) key =
     (if has_key kvs key then [JObj kvs] else [])
     @ concat (map (\<lambda>kv. case snd kv of JObj sub \<Rightarrow> finditem (JObj sub) key | _ \<Rightarrow> []) kvs)"
  by (simp add: finditem_values_concat)


lemma property_addressable_no_anchor:
  assumes "map_of kvs k = Some v" and "k \<noteq> []"
    and "filter (anchored ''$anchor'' (escape k)) (finditem (JObj kvs) ''$anchor'') = []"
    and "filter (anchored ''$dynamicAnchor'' (escape k)) (finditem (JObj kvs) ''$dynamicAnchor'') = []"
    and "unquote env (escape k) = escape k"
  shows "resolve_fragment env (JObj kvs) (CHR ''/'' # escape k) = Inr v"
proof -
  have "find_anchor (JObj kvs) (escape k) = None"
    using assms(3,4) by (simp add: find_anchor_cases)
  then show ?thesis using property_addressable assms(1,2,5) by blast
qed

text \<open>
  Claim C5, as stated, fails. In \<^verbatim>\<open>{"a": {"$anchor": "/x"}}\<close> a subdocument has the anchor
  name \<^verbatim>\<open>/x\<close>, and \<^verbatim>\<open>resolve_fragment\<close> does not return it for the fragment \<^verbatim>\<open>/x\<close>: the
  fragment is compared, and named in the error, with its leading slashes stripped. In
  \<^verbatim>\<open>{"allOf": [{"$anchor": "foo"}]}\<close> a subdocument has the anchor name \<^verbatim>\<open>foo\<close>, and
  \<^verbatim>\<open>resolve_fragment\<close> raises for the fragment \<^verbatim>\<open>foo\<close>: the search does not enter lists.
\<close>

theorem resolve_fragment_anchor_counterexample:
  "finditem slash_anchor_doc ''$anchor'' = [JObj [(''$anchor'', JStr ''/x'')]]
   \<and> anchored ''$anchor'' ''/x'' (JObj [(''$anchor'', JStr ''/x'')])
   \<and> resolve_fragment env0 slash_anchor_doc ''/x''
       = Inl (RefResolutionError (''Unresolvable JSON pointer: '' @ py_repr env0 (JStr ''x'')))
   \<and> resolve_fragment env0 list_anchor_doc ''foo''
       = Inl (RefResolutionError (''Unresolvable JSON pointer: '' @ py_repr env0 (JStr ''foo'')))"
  by code_simp

text \<open>
  Claim C5, amended. Let \<open>F'\<close> be the fragment \<open>F\<close> without its leading slashes. The
  dicts \<^verbatim>\<open>_finditem\<close> finds for a keyword are the document itself, when it holds the
  keyword, and then those found in its values that are dicts, in order; lists are not
  entered. When \<open>F'\<close> is not empty and one of the dicts found for \<^verbatim>\<open>$anchor\<close> has the
  \<^verbatim>\<open>$anchor\<close> \<open>F'\<close>, \<^verbatim>\<open>resolve_fragment\<close> returns the first of them; when none has and one
  of the dicts found for \<^verbatim>\<open>$dynamicAnchor\<close> has the \<^verbatim>\<open>$dynamicAnchor\<close> \<open>F'\<close>, it returns the
  first of those; so whenever such an anchored dict exists, an anchored dict is returned.
  Otherwise it walks the document along the parts of the percent-decoded \<open>F'\<close> split on
  \<^verbatim>\<open>/\<close> (no part when \<open>F'\<close> is empty): each part is unescaped (\<^verbatim>\<open>~1\<close> to \<^verbatim>\<open>/\<close>, then
  \<^verbatim>\<open>~0\<close> to \<^verbatim>\<open>~\<close>), made an integer index when the node is a list or a string and the
  part reads as an integer, and looked up in the node. A part that cannot be looked up
  (key absent, index out of range, node not indexable) ends the walk with a
  \<^verbatim>\<open>RefResolutionError\<close> naming \<open>F'\<close>, and \<^verbatim>\<open>resolve_fragment\<close> raises nothing else.
  Unescaping inverts the escaping of a property name, so a non-empty name \<open>k\<close> of a
  mapping, with \<^verbatim>\<open>/\<close> or \<^verbatim>\<open>~\<close> in it or not, is addressed by the fragment \<^verbatim>\<open>/\<close> followed
  by the escaped name, when no anchor has that name and percent-decoding leaves it as it
  is.
\<close>

theorem resolve_fragment_behaviour:
  "(lstrip CHR ''/'' F \<noteq> []
      \<and> filter (anchored ''$anchor'' (lstrip CHR ''/'' F)) (finditem D ''$anchor'') = s # rest \<longrightarrow>
      resolve_fragment env D F = Inr s)
   \<and> (lstrip CHR ''/'' F \<noteq> []
      \<and> filter (anchored ''$anchor'' (lstrip CHR ''/'' F)) (finditem D ''$anchor'') = []
      \<and> filter (anchored ''$dynamicAnchor'' (lstrip CHR ''/'' F)) (finditem D ''$dynamicAnchor'')
          = s # rest \<longrightarrow>
      resolve_fragment env D F = Inr s)
   \<and> (lstrip CHR ''/'' F \<noteq> [] \<and> (key = ''$anchor'' \<or> key = ''$dynamicAnchor'')
      \<and> a \<in> set (finditem D key) \<and> anchored key (lstrip CHR ''/'' F) a \<longrightarrow>
      (\<exists>s'. resolve_fragment env D F = Inr s'
         \<and> ((s' \<in> set (finditem D ''$anchor'') \<and> anchored ''$anchor'' (lstrip CHR ''/'' F) s')
            \<or> (s' \<in> set (finditem D ''$dynamicAnchor'')
               \<and> anchored ''$dynamicAnchor'' (lstrip CHR ''/'' F) s'))))
   \<and> (anchored key fr a \<longleftrightarrow> (\<exists>m. a = JObj m \<and> map_of m key = Some (JStr fr)))
   \<and> finditem (JObj kvs) key =
        (if has_key kvs key then [JObj kvs] else [])
        @ concat (map (\<lambda>kv. case snd kv of JObj sub \<Rightarrow> finditem (JObj sub) key | _ \<Rightarrow> []) kvs)
   \<and> finditem (JArr xs) key = []
   \<and> (lstrip CHR ''/'' F = []
       \<or> (filter (anchored ''$anchor'' (lstrip CHR ''/'' F)) (finditem D ''$anchor'') = []
          \<and> filter (anchored ''$dynamicAnchor'' (lstrip CHR ''/'' F))
               (finditem D ''$dynamicAnchor'') = []) \<longrightarrow>
      resolve_fragment env D F =
        walk env (lstrip CHR ''/'' F) D
          (if lstrip CHR ''/'' F = [] then []
           else split_on CHR ''/'' (unquote env (lstrip CHR ''/'' F))))
   \<and> (resolve_fragment env D F = Inl x \<longrightarrow>
      x = RefResolutionError
            (''Unresolvable JSON pointer: '' @ py_repr env (JStr (lstrip CHR ''/'' F))))
   \<and> walk env fr d [] = Inr d
   \<and> (walk env fr d pre = Inr d' \<and> getitem d' (coerce env d' (unescape part)) = Inl y \<longrightarrow>
      walk env fr d (pre @ part # post)
        = Inl (RefResolutionError (''Unresolvable JSON pointer: '' @ py_repr env (JStr fr))))
   \<and> (walk env fr d pre = Inr d' \<and> getitem d' (coerce env d' (unescape part)) = Inr d'' \<longrightarrow>
      walk env fr d (pre @ part # post) = walk env fr d'' post)
   \<and> coerce env (JArr xs) part = (case py_int env part of None \<Rightarrow> Inl part | Some i \<Rightarrow> Inr i)
   \<and> coerce env (JStr str) part = (case py_int env part of None \<Rightarrow> Inl part | Some i \<Rightarrow> Inr i)
   \<and> coerce env (JObj kvs) part = Inl part
   \<and> (map_of kvs k = None \<longrightarrow> getitem (JObj kvs) (Inl k) = Inl KeyError)
   \<and> (i < - int (length xs) \<or> int (length xs) \<le> i \<longrightarrow> getitem (JArr xs) (Inr i) = Inl IndexError)
   \<and> (0 \<le> i \<and> i < int (length xs) \<longrightarrow> getitem (JArr xs) (Inr i) = Inr (xs ! nat i))
   \<and> getitem (JArr xs) (Inl k) = Inl TypeError
   \<and> getitem JNull p = Inl TypeError
   \<and> getitem (JBool b) p = Inl TypeError
   \<and> getitem (JInt n) p = Inl TypeError
   \<and> unescape (escape k) = k
   \<and> (map_of kvs k = Some v \<and> k \<noteq> []
       \<and> filter (anchored ''$anchor'' (escape k)) (finditem (JObj kvs) ''$anchor'') = []
       \<and> filter (anchored ''$dynamicAnchor'' (escape k)) (finditem (JObj kvs) ''$dynamicAnchor'') = []
       \<and> unquote env (escape k) = escape k \<longrightarrow>
      resolve_fragment env (JObj kvs) (CHR ''/'' # escape k) = Inr v)"
proof -
  have a1: "lstrip CHR ''/'' F \<noteq> []
      \<and> filter (anchored ''$anchor'' (lstrip CHR ''/'' F)) (finditem D ''$anchor'') = s # rest \<longrightarrow>
      resolve_fragment env D F = Inr s"
    using anchor_first by blast
  have a2: "lstrip CHR ''/'' F \<noteq> []
      \<and> filter (anchored ''$anchor'' (lstrip CHR ''/'' F)) (finditem D ''$anchor'') = []
      \<and> filter (anchored ''$dynamicAnchor'' (lstrip CHR ''/'' F)) (finditem D ''$dynamicAnchor'')
          = s # rest \<longrightarrow>
      resolve_fragment env D F = Inr s"
    using dynamic_anchor_second by blast
  have a3: "lstrip CHR ''/'' F \<noteq> [] \<and> (key = ''$anchor'' \<or> key = ''$dynamicAnchor'')
      \<and> a \<in> set (finditem D key) \<and> anchored key (lstrip CHR ''/'' F) a \<longrightarrow>
      (\<exists>s'. resolve_fragment env D F = Inr s'
         \<and> ((s' \<in> set (finditem D ''$anchor'') \<and> anchored ''$anchor'' (lstrip CHR ''/'' F) s')
            \<or> (s' \<in> set (finditem D ''$dynamicAnchor'')
               \<and> anchored ''$dynamicAnchor'' (lstrip CHR ''/'' F) s')))"
    using anchored_returned [of F key a D env] by blast
  have a4: "anchored key fr a \<longleftrightarrow> (\<exists>m. a = JObj m \<and> map_of m key = Some (JStr fr))"
    by (rule anchored_iff)
  have a5: "finditem (JObj kvs) key =
        (if has_key kvs key then [JObj kvs] else [])
        @ concat (map (\<lambda>kv. case snd kv of JObj sub \<Rightarrow> finditem (JObj sub) key | _ \<Rightarrow> []) kvs)"
    by (rule finditem_object)
  have b: "lstrip CHR ''/'' F = []
       \<or> (filter (anchored ''$anchor'' (lstrip CHR ''/'' F)) (finditem D ''$anchor'') = []
          \<and> filter (anchored ''$dynamicAnchor'' (lstrip CHR ''/'' F))
               (finditem D ''$dynamicAnchor'') = []) \<longrightarrow>
      resolve_fragment env D F =
        walk env (lstrip CHR ''/'' F) D
          (if lstrip CHR ''/'' F = [] then []
           else split_on CHR ''/'' (unquote env (lstrip CHR ''/'' F)))"
    using no_anchor_pointer by blast
  have c: "resolve_fragment env D F = Inl x \<longrightarrow>
      x = RefResolutionError
            (''Unresolvable JSON pointer: '' @ py_repr env (JStr (lstrip CHR ''/'' F)))"
    using resolve_fragment_raises by blast
  have d: "walk env fr d pre = Inr d' \<and> getitem d' (coerce env d' (unescape part)) = Inl y \<longrightarrow>
      walk env fr d (pre @ part # post)
        = Inl (RefResolutionError (''Unresolvable JSON pointer: '' @ py_repr env (JStr fr)))"
    using walk_segment_fails by blast
  have e: "walk env fr d pre = Inr d' \<and> getitem d' (coerce env d' (unescape part)) = Inr d'' \<longrightarrow>
      walk env fr d (pre @ part # post) = walk env fr d'' post"
    using walk_segment_steps by blast
  have f: "map_of kvs k = Some v \<and> k \<noteq> []
       \<and> filter (anchored ''$anchor'' (escape k)) (finditem (JObj kvs) ''$anchor'') = []
       \<and> filter (anchored ''$dynamicAnchor'' (escape k)) (finditem (JObj kvs) ''$dynamicAnchor'') = []
       \<and> unquote env (escape k) = escape k \<longrightarrow>
      resolve_fragment env (JObj kvs) (CHR ''/'' # escape k) = Inr v"
    using property_addressable_no_anchor by blast
  have g: "walk env fr d [] = Inr d" "finditem (JArr xs) key = []" "unescape (escape k) = k"
    by (simp_all add: unescape_escape)
  note h = getitem_cases [of kvs k v i xs p b n] coerce_cases [of env xs part str kvs]
  show ?thesis
    by (intro conjI a1 a2 a3 a4 a5 b c d e f g) (use h in blast)+
qed

theorem resolve_fragment_behaviour_witness:
  "resolve_fragment env0 anchors_doc ''/n'' = Inr anchor_q
   \<and> resolve_fragment env0 anchors_doc ''m'' = Inr anchor_t
   \<and> resolve_fragment env0 pointer_doc ''/a~1b'' = Inr (JArr [JInt 1, JStr ''xyz''])
   \<and> resolve_fragment env0 pointer_doc ''/m~0n'' = Inr (JInt 8)
   \<and> resolve_fragment env0 pointer_doc ''/a~1b/7''
       = Inl (RefResolutionError (''Unresolvable JSON pointer: '' @ py_repr env0 (JStr ''a~1b/7'')))"
proof -
  define kvs where "kvs = [(''a/b'', JArr [JInt 1, JStr ''xyz'']), (''m~n'', JInt 8)]"
  have doc: "pointer_doc = JObj kvs" by (simp add: pointer_doc_def kvs_def)
  have k1: "map_of kvs ''a/b'' = Some (JArr [JInt 1, JStr ''xyz''])" by (simp add: kvs_def)
  have k2: "map_of kvs ''m~n'' = Some (JInt 8)" by (simp add: kvs_def)
  have e1: "escape ''a/b'' = ''a~1b''" by simp
  have e2: "escape ''m~n'' = ''m~0n''" by simp
  have a1: "filter (anchored ''$anchor'' (escape ''a/b'')) (finditem (JObj kvs) ''$anchor'') = []"
    "filter (anchored ''$dynamicAnchor'' (escape ''a/b'')) (finditem (JObj kvs) ''$dynamicAnchor'') = []"
    unfolding kvs_def by code_simp+
  have a2: "filter (anchored ''$anchor'' (escape ''m~n'')) (finditem (JObj kvs) ''$anchor'') = []"
    "filter (anchored ''$dynamicAnchor'' (escape ''m~n'')) (finditem (JObj kvs) ''$dynamicAnchor'') = []"
    unfolding kvs_def by code_simp+
  have u1: "unquote env0 (escape ''a/b'') = escape ''a/b''" by code_simp
  have u2: "unquote env0 (escape ''m~n'') = escape ''m~n''" by code_simp
  have f: "case resolve_fragment env0 pointer_doc ''/a~1b/7'' of Inl x \<Rightarrow> True | Inr d \<Rightarrow> False"
    by code_simp
  then obtain x where x: "resolve_fragment env0 pointer_doc ''/a~1b/7'' = Inl x"
    by (cases "resolve_fragment env0 pointer_doc ''/a~1b/7''") auto
  have l: "lstrip CHR ''/'' ''/a~1b/7'' = ''a~1b/7''" by (simp add: lstrip_def)
  have ln: "lstrip CHR ''/'' ''/n'' = ''n''" "lstrip CHR ''/'' ''m'' = ''m''"
    by (simp_all add: lstrip_def)
  have n1: "filter (anchored ''$anchor'' ''n'') (finditem anchors_doc ''$anchor'')
              = anchor_q # [anchor_r]"
    by code_simp
  have m1: "filter (anchored ''$anchor'' ''m'') (finditem anchors_doc ''$anchor'') = []"
    by code_simp
  have m2: "filter (anchored ''$dynamicAnchor'' ''m'') (finditem anchors_doc ''$dynamicAnchor'')
              = anchor_t # []"
    by code_simp
  note p1 = resolve_fragment_behaviour [where env = env0 and kvs = kvs and k = "''a/b''"
        and v = "JArr [JInt 1, JStr ''xyz'']" and D = pointer_doc and F = "''/a~1b/7''" and x = x]
  note p2 = resolve_fragment_behaviour [where env = env0 and kvs = kvs and k = "''m~n''"
        and v = "JInt 8"]
  note p3 = resolve_fragment_behaviour [where env = env0 and D = anchors_doc and F = "''/n''"
        and s = anchor_q and rest = "[anchor_r]"]
  note p4 = resolve_fragment_behaviour [where env = env0 and D = anchors_doc and F = "''m''"
        and s = anchor_t and rest = "[]"]
  have q: "resolve_fragment env0 anchors_doc ''/n'' = Inr anchor_q"
    using p3 n1 ln by simp
  have t: "resolve_fragment env0 anchors_doc ''m'' = Inr anchor_t"
    using p4 m1 m2 ln by simp
  have r1: "resolve_fragment env0 pointer_doc ''/a~1b'' = Inr (JArr [JInt 1, JStr ''xyz''])"
    using p1 doc k1 e1 a1 u1 by simp
  have r2: "resolve_fragment env0 pointer_doc ''/m~0n'' = Inr (JInt 8)"
    using p2 doc k2 e2 a2 u2 by simp
  have r3: "resolve_fragment env0 pointer_doc ''/a~1b/7''
       = Inl (RefResolutionError (''Unresolvable JSON pointer: '' @ py_repr env0 (JStr ''a~1b/7'')))"
    using p1 x l by simp
  show ?thesis using q t r1 r2 r3 by simp
qed

end
